theory Spec2Isabelle
  imports Main
begin

section \<open>Collections of the codec library\<close>

text \<open>
  The exporter of \<^verbatim>\<open>transaction_parser.py\<close> reshapes the collection fields of a decoded
  transaction. A collection field holds \<^verbatim>\<open>None\<close> (modelled by \<open>option\<close>), a plain
  Python list, an \<^verbatim>\<open>OrderedSet\<close>, a \<^verbatim>\<open>NonEmptyOrderedSet\<close>, for the Conway
  inputs the empty built-in set \<^verbatim>\<open>set()\<close>, or a map: the codec decodes the redeemers of
  a Conway transaction into a \<^verbatim>\<open>RedeemerMap\<close>, a dictionary from redeemer keys to
  redeemer values. The payloads (transaction inputs, key hashes, witnesses, scripts,
  redeemer keys and values) are opaque objects of one universe \<open>'a\<close>.
\<close>

datatype 'a coll =
    PyList "'a list"
  | OrderedSet "'a list"
  | NonEmptyOrderedSet "'a list"
  | PySetEmpty
  | RedeemerMap "('a \<times> 'a) list"

text \<open>
  The items in iteration order: what \<^verbatim>\<open>list(v)\<close> and the set constructors read of \<open>v\<close>.
  Iterating a dictionary yields its keys only.
\<close>

fun elems :: "'a coll \<Rightarrow> 'a list" where
  "elems (PyList xs) = xs"
| "elems (OrderedSet xs) = xs"
| "elems (NonEmptyOrderedSet xs) = xs"
| "elems PySetEmpty = []"
| "elems (RedeemerMap kvs) = map fst kvs"

text \<open>
  Python truthiness of a field value, the test of every \<^verbatim>\<open>X(v) if v else None\<close>:
  \<^verbatim>\<open>None\<close> and every empty collection are falsy.
\<close>

fun truthy :: "'a coll option \<Rightarrow> bool" where
  "truthy None = False"
| "truthy (Some c) = (elems c \<noteq> [])"

text \<open>
  \<^verbatim>\<open>OrderedSet.extend\<close>: each item is appended unless it is already a member, so the
  first occurrence is kept and the insertion order is preserved. Membership is by the
  library's key of an item, taken here as equality of the items.
\<close>

fun OrderedSet_extend :: "'a list \<Rightarrow> 'a list \<Rightarrow> 'a list" where
  "OrderedSet_extend acc [] = acc"
| "OrderedSet_extend acc (x # xs) = OrderedSet_extend (if x \<in> set acc then acc else acc @ [x]) xs"

text \<open>
  The constructor calls \<^verbatim>\<open>list(v)\<close>, \<^verbatim>\<open>OrderedSet(v)\<close>, \<^verbatim>\<open>NonEmptyOrderedSet(v)\<close> on a
  collection \<open>v\<close>. The codec's set constructors compute the key of each item by encoding
  it, and raise \<^verbatim>\<open>TypeError\<close> on an item that cannot be encoded. The items of a decoded
  transaction can be encoded, and the constructors are modelled on such items. A pool
  registration without pool parameters is not such an item: what is stated about it below
  is confined to the certificate itself and to the exports that collect the certificates
  in a plain list.
\<close>

definition py_list :: "'a coll \<Rightarrow> 'a coll" where
  "py_list c = PyList (elems c)"

definition OrderedSet_new :: "'a coll \<Rightarrow> 'a coll" where
  "OrderedSet_new c = OrderedSet (OrderedSet_extend [] (elems c))"

definition NonEmptyOrderedSet_new :: "'a coll \<Rightarrow> 'a coll" where
  "NonEmptyOrderedSet_new c = NonEmptyOrderedSet (OrderedSet_extend [] (elems c))"

text \<open>
  The conditional expression \<^verbatim>\<open>f(v) if v else d\<close> on a field value \<open>v\<close>: the
  constructor \<open>f\<close> only runs on a truthy value, which is never \<^verbatim>\<open>None\<close>.
\<close>

definition if_truthy :: "'a coll option \<Rightarrow> ('a coll \<Rightarrow> 'b) \<Rightarrow> 'b \<Rightarrow> 'b" where
  "if_truthy v f d = (case v of None \<Rightarrow> d | Some c \<Rightarrow> if elems c \<noteq> [] then f c else d)"

section \<open>Data model\<close>

text \<open>
  The classes of the codec library that the exporter reads and builds, with the fields
  the source names. Their constructors are taken to store the arguments as they are
  given; the serialisation itself is the codec's. The codec's body has further fields
  (voting procedures, proposal procedures, treasury value, donation) that the builders
  do not pass to the constructor; they are left out here.
\<close>

datatype Era = BABBAGE | CONWAY

datatype CollectionType = DEFAULT | LIST | SET

datatype py_error =
    ValueError string
  | FileNotFoundError string
  | TypeError string
  | JSONDecodeError string
  | KeyError string

record 'a PoolParams =
  operator :: 'a
  vrf_keyhash :: 'a
  pledge :: int
  cost :: int
  margin :: 'a
  reward_account :: 'a
  pool_owners :: "'a coll option"
  relays :: "'a option"
  pool_metadata :: "'a option"

text \<open>
  Only the pool registration carries a nested collection; every other certificate
  variant is an opaque object.
\<close>

datatype 'a Certificate =
    PoolRegistration "'a PoolParams option"
  | OtherCertificate 'a

record 'a TransactionBody =
  inputs :: "'a coll option"
  outputs :: "'a list"
  fee :: int
  ttl :: "int option"
  certificates :: "'a Certificate coll option"
  withdraws :: "'a option"
  update :: "'a option"
  auxiliary_data_hash :: "'a option"
  validity_start :: "int option"
  mint :: "'a option"
  script_data_hash :: "'a option"
  collateral :: "'a coll option"
  required_signers :: "'a coll option"
  network_id :: "'a option"
  collateral_return :: "'a option"
  total_collateral :: "int option"
  reference_inputs :: "'a coll option"

record 'a TransactionWitnessSet =
  vkey_witnesses :: "'a coll option"
  native_scripts :: "'a coll option"
  bootstrap_witness :: "'a coll option"
  plutus_v1_script :: "'a coll option"
  plutus_v2_script :: "'a coll option"
  plutus_v3_script :: "'a coll option"
  plutus_data :: "'a coll option"
  redeemer :: "'a coll option"

record 'a Transaction =
  transaction_body :: "'a TransactionBody"
  transaction_witness_set :: "'a TransactionWitnessSet"
  auxiliary_data :: "'a option"
  valid :: bool

section \<open>TransactionExporter\<close>

text \<open>
  \<^verbatim>\<open>_process_pool_registration_cert\<close>. The argument is the \<^verbatim>\<open>pool_params\<close> of the
  certificate; a certificate without pool parameters, or whose owners are \<^verbatim>\<open>None\<close> or
  empty, is returned as it is.
\<close>

definition process_pool_registration_cert ::
  "'a PoolParams option \<Rightarrow> CollectionType \<Rightarrow> 'a Certificate" where
  "process_pool_registration_cert cert_pool_params collection_type =
     (case cert_pool_params of
        None \<Rightarrow> PoolRegistration cert_pool_params
      | Some pp \<Rightarrow>
         (case pool_owners pp of
            None \<Rightarrow> PoolRegistration cert_pool_params
          | Some owners \<Rightarrow>
              if elems owners = [] then PoolRegistration cert_pool_params
              else
                let processed_pool_owners =
                      (if collection_type = DEFAULT \<or> collection_type = SET
                       then OrderedSet_new owners
                       else py_list owners);
                    new_pool_params =
                      \<lparr> operator = operator pp,
                        vrf_keyhash = vrf_keyhash pp,
                        pledge = pledge pp,
                        cost = cost pp,
                        margin = margin pp,
                        reward_account = reward_account pp,
                        pool_owners = Some processed_pool_owners,
                        relays = relays pp,
                        pool_metadata = pool_metadata pp \<rparr>
                in PoolRegistration (Some new_pool_params)))"

text \<open>The loop body of \<^verbatim>\<open>process_certificates\<close>: the \<^verbatim>\<open>isinstance\<close> test.\<close>

fun process_certificate :: "CollectionType \<Rightarrow> 'a Certificate \<Rightarrow> 'a Certificate" where
  "process_certificate collection_type (PoolRegistration pp) =
     process_pool_registration_cert pp collection_type"
| "process_certificate collection_type (OtherCertificate c) = OtherCertificate c"

text \<open>
  \<^verbatim>\<open>process_certificates\<close>: a falsy argument is returned as it is, otherwise the
  result is a fresh Python list of the processed certificates. The era is not used.
\<close>

definition process_certificates ::
  "'a Certificate coll \<Rightarrow> Era \<Rightarrow> CollectionType \<Rightarrow> 'a Certificate coll" where
  "process_certificates certs era collection_type =
     (if elems certs = [] then certs
      else PyList (map (process_certificate collection_type) (elems certs)))"

text \<open>
  \<^verbatim>\<open>_build_babbage_transaction_body\<close>. The certificates are processed only when the
  source field is truthy, and then wrapped: a list under \<^verbatim>\<open>DEFAULT\<close> and \<^verbatim>\<open>LIST\<close>, a
  \<^verbatim>\<open>NonEmptyOrderedSet\<close> under \<^verbatim>\<open>SET\<close>.
\<close>

definition build_babbage_transaction_body ::
  "'a TransactionBody \<Rightarrow> CollectionType \<Rightarrow> 'a TransactionBody" where
  "build_babbage_transaction_body tx_body collection_type =
     (let (inputs', collateral', required_signers', reference_inputs') =
            (if collection_type = DEFAULT \<or> collection_type = SET
             then (if_truthy (inputs tx_body) (\<lambda>v. Some (OrderedSet_new v)) None,
                   if_truthy (collateral tx_body) (\<lambda>v. Some (NonEmptyOrderedSet_new v)) None,
                   if_truthy (required_signers tx_body) (\<lambda>v. Some (NonEmptyOrderedSet_new v)) None,
                   if_truthy (reference_inputs tx_body) (\<lambda>v. Some (NonEmptyOrderedSet_new v)) None)
             else (if_truthy (inputs tx_body) (\<lambda>v. Some (py_list v)) None,
                   if_truthy (collateral tx_body) (\<lambda>v. Some (py_list v)) None,
                   if_truthy (required_signers tx_body) (\<lambda>v. Some (py_list v)) None,
                   if_truthy (reference_inputs tx_body) (\<lambda>v. Some (py_list v)) None));
          certificates' =
            if_truthy (certificates tx_body)
              (\<lambda>v. let processed = process_certificates v BABBAGE collection_type
                   in if collection_type = DEFAULT \<or> collection_type = LIST
                      then Some (py_list processed)
                      else Some (NonEmptyOrderedSet_new processed))
              None
      in \<lparr> inputs = inputs',
           outputs = outputs tx_body,
           fee = fee tx_body,
           ttl = ttl tx_body,
           certificates = certificates',
           withdraws = withdraws tx_body,
           update = update tx_body,
           auxiliary_data_hash = auxiliary_data_hash tx_body,
           validity_start = validity_start tx_body,
           mint = mint tx_body,
           script_data_hash = script_data_hash tx_body,
           collateral = collateral',
           required_signers = required_signers',
           network_id = network_id tx_body,
           collateral_return = collateral_return tx_body,
           total_collateral = total_collateral tx_body,
           reference_inputs = reference_inputs' \<rparr>)"

text \<open>\<^verbatim>\<open>_build_babbage_witness_set\<close>: lists under \<^verbatim>\<open>DEFAULT\<close> and \<^verbatim>\<open>LIST\<close>.\<close>

definition build_babbage_witness_set ::
  "'a TransactionWitnessSet \<Rightarrow> CollectionType \<Rightarrow> 'a TransactionWitnessSet" where
  "build_babbage_witness_set witness_set collection_type =
     (if collection_type = DEFAULT \<or> collection_type = LIST
      then \<lparr> vkey_witnesses = if_truthy (vkey_witnesses witness_set) (\<lambda>v. Some (py_list v)) None,
             native_scripts = if_truthy (native_scripts witness_set) (\<lambda>v. Some (py_list v)) None,
             bootstrap_witness = if_truthy (bootstrap_witness witness_set) (\<lambda>v. Some (py_list v)) None,
             plutus_v1_script = if_truthy (plutus_v1_script witness_set) (\<lambda>v. Some (py_list v)) None,
             plutus_v2_script = if_truthy (plutus_v2_script witness_set) (\<lambda>v. Some (py_list v)) None,
             plutus_v3_script = if_truthy (plutus_v3_script witness_set) (\<lambda>v. Some (py_list v)) None,
             plutus_data = if_truthy (plutus_data witness_set) (\<lambda>v. Some (py_list v)) None,
             redeemer = if_truthy (redeemer witness_set) (\<lambda>v. Some (py_list v)) None \<rparr>
      else \<lparr> vkey_witnesses = if_truthy (vkey_witnesses witness_set) (\<lambda>v. Some (NonEmptyOrderedSet_new v)) None,
             native_scripts = if_truthy (native_scripts witness_set) (\<lambda>v. Some (NonEmptyOrderedSet_new v)) None,
             bootstrap_witness = if_truthy (bootstrap_witness witness_set) (\<lambda>v. Some (NonEmptyOrderedSet_new v)) None,
             plutus_v1_script = if_truthy (plutus_v1_script witness_set) (\<lambda>v. Some (NonEmptyOrderedSet_new v)) None,
             plutus_v2_script = if_truthy (plutus_v2_script witness_set) (\<lambda>v. Some (NonEmptyOrderedSet_new v)) None,
             plutus_v3_script = if_truthy (plutus_v3_script witness_set) (\<lambda>v. Some (NonEmptyOrderedSet_new v)) None,
             plutus_data = if_truthy (plutus_data witness_set) (\<lambda>v. Some (NonEmptyOrderedSet_new v)) None,
             redeemer = if_truthy (redeemer witness_set) (\<lambda>v. Some (NonEmptyOrderedSet_new v)) None \<rparr>)"

definition export_babbage :: "'a Transaction \<Rightarrow> CollectionType \<Rightarrow> 'a Transaction" where
  "export_babbage tx collection_type =
     (let body = build_babbage_transaction_body (transaction_body tx) collection_type;
          witness_set = build_babbage_witness_set (transaction_witness_set tx) collection_type
      in \<lparr> transaction_body = body,
           transaction_witness_set = witness_set,
           auxiliary_data = auxiliary_data tx,
           valid = valid tx \<rparr>)"

text \<open>
  \<^verbatim>\<open>_build_conway_transaction_body\<close>. Falsy inputs become the empty built-in set
  (\<^verbatim>\<open>set()\<close>) or the empty list, not \<^verbatim>\<open>None\<close>. The certificates are wrapped in a
  \<^verbatim>\<open>NonEmptyOrderedSet\<close> under \<^verbatim>\<open>DEFAULT\<close> and \<^verbatim>\<open>SET\<close>; the \<^verbatim>\<open>elif\<close> has no
  \<^verbatim>\<open>else\<close>, so any other value would leave the processed list as it is.
\<close>

definition build_conway_transaction_body ::
  "'a TransactionBody \<Rightarrow> CollectionType \<Rightarrow> 'a TransactionBody" where
  "build_conway_transaction_body tx_body collection_type =
     (let (inputs', collateral', required_signers', reference_inputs') =
            (if collection_type = DEFAULT \<or> collection_type = SET
             then (if_truthy (inputs tx_body) (\<lambda>v. Some (OrderedSet_new v)) (Some PySetEmpty),
                   if_truthy (collateral tx_body) (\<lambda>v. Some (NonEmptyOrderedSet_new v)) None,
                   if_truthy (required_signers tx_body) (\<lambda>v. Some (NonEmptyOrderedSet_new v)) None,
                   if_truthy (reference_inputs tx_body) (\<lambda>v. Some (NonEmptyOrderedSet_new v)) None)
             else (if_truthy (inputs tx_body) (\<lambda>v. Some (py_list v)) (Some (PyList [])),
                   if_truthy (collateral tx_body) (\<lambda>v. Some (py_list v)) None,
                   if_truthy (required_signers tx_body) (\<lambda>v. Some (py_list v)) None,
                   if_truthy (reference_inputs tx_body) (\<lambda>v. Some (py_list v)) None));
          certificates' =
            if_truthy (certificates tx_body)
              (\<lambda>v. let processed = process_certificates v CONWAY collection_type
                   in if collection_type = DEFAULT \<or> collection_type = SET
                      then Some (NonEmptyOrderedSet_new processed)
                      else if collection_type = LIST
                      then Some (py_list processed)
                      else Some processed)
              None
      in \<lparr> inputs = inputs',
           outputs = outputs tx_body,
           fee = fee tx_body,
           ttl = ttl tx_body,
           certificates = certificates',
           withdraws = withdraws tx_body,
           update = update tx_body,
           auxiliary_data_hash = auxiliary_data_hash tx_body,
           validity_start = validity_start tx_body,
           mint = mint tx_body,
           script_data_hash = script_data_hash tx_body,
           collateral = collateral',
           required_signers = required_signers',
           network_id = network_id tx_body,
           collateral_return = collateral_return tx_body,
           total_collateral = total_collateral tx_body,
           reference_inputs = reference_inputs' \<rparr>)"

text \<open>\<^verbatim>\<open>_build_conway_witness_set\<close>: non-empty ordered sets under \<^verbatim>\<open>DEFAULT\<close> and \<^verbatim>\<open>SET\<close>.\<close>

definition build_conway_witness_set ::
  "'a TransactionWitnessSet \<Rightarrow> CollectionType \<Rightarrow> 'a TransactionWitnessSet" where
  "build_conway_witness_set witness_set collection_type =
     (if collection_type = DEFAULT \<or> collection_type = SET
      then \<lparr> vkey_witnesses = if_truthy (vkey_witnesses witness_set) (\<lambda>v. Some (NonEmptyOrderedSet_new v)) None,
             native_scripts = if_truthy (native_scripts witness_set) (\<lambda>v. Some (NonEmptyOrderedSet_new v)) None,
             bootstrap_witness = if_truthy (bootstrap_witness witness_set) (\<lambda>v. Some (NonEmptyOrderedSet_new v)) None,
             plutus_v1_script = if_truthy (plutus_v1_script witness_set) (\<lambda>v. Some (NonEmptyOrderedSet_new v)) None,
             plutus_v2_script = if_truthy (plutus_v2_script witness_set) (\<lambda>v. Some (NonEmptyOrderedSet_new v)) None,
             plutus_v3_script = if_truthy (plutus_v3_script witness_set) (\<lambda>v. Some (NonEmptyOrderedSet_new v)) None,
             plutus_data = if_truthy (plutus_data witness_set) (\<lambda>v. Some (NonEmptyOrderedSet_new v)) None,
             redeemer = if_truthy (redeemer witness_set) (\<lambda>v. Some (NonEmptyOrderedSet_new v)) None \<rparr>
      else \<lparr> vkey_witnesses = if_truthy (vkey_witnesses witness_set) (\<lambda>v. Some (py_list v)) None,
             native_scripts = if_truthy (native_scripts witness_set) (\<lambda>v. Some (py_list v)) None,
             bootstrap_witness = if_truthy (bootstrap_witness witness_set) (\<lambda>v. Some (py_list v)) None,
             plutus_v1_script = if_truthy (plutus_v1_script witness_set) (\<lambda>v. Some (py_list v)) None,
             plutus_v2_script = if_truthy (plutus_v2_script witness_set) (\<lambda>v. Some (py_list v)) None,
             plutus_v3_script = if_truthy (plutus_v3_script witness_set) (\<lambda>v. Some (py_list v)) None,
             plutus_data = if_truthy (plutus_data witness_set) (\<lambda>v. Some (py_list v)) None,
             redeemer = if_truthy (redeemer witness_set) (\<lambda>v. Some (py_list v)) None \<rparr>)"

definition export_conway :: "'a Transaction \<Rightarrow> CollectionType \<Rightarrow> 'a Transaction" where
  "export_conway tx collection_type =
     (let body = build_conway_transaction_body (transaction_body tx) collection_type;
          witness_set = build_conway_witness_set (transaction_witness_set tx) collection_type
      in \<lparr> transaction_body = body,
           transaction_witness_set = witness_set,
           auxiliary_data = auxiliary_data tx,
           valid = valid tx \<rparr>)"

text \<open>
  \<^verbatim>\<open>export_to_era\<close>. The last branch raises \<^verbatim>\<open>ValueError\<close>; the enumeration has two
  members, so no \<open>Era\<close> reaches it.
\<close>

definition export_to_era ::
  "'a Transaction \<Rightarrow> Era \<Rightarrow> CollectionType \<Rightarrow> py_error + 'a Transaction" where
  "export_to_era tx era collection_type =
     (if era = BABBAGE then Inr (export_babbage tx collection_type)
      else if era = CONWAY then Inr (export_conway tx collection_type)
      else Inl (ValueError ''Unsupported era''))"

section \<open>TransactionParser\<close>

text \<open>
  The value \<^verbatim>\<open>json.load\<close> returns. A dictionary is the list of its items; the keys are
  distinct, as in a Python \<^verbatim>\<open>dict\<close>.
\<close>

datatype json =
    JObject "(string \<times> json) list"
  | JArray "json list"
  | JString string
  | JNumber int
  | JBool bool
  | JNull

text \<open>
  \<^verbatim>\<open>str(e)\<close>: the message of an exception. The messages of the library's exceptions
  are abbreviated; the text the source itself writes is exact.
\<close>

fun str_of :: "py_error \<Rightarrow> string" where
  "str_of (ValueError m) = m"
| "str_of (FileNotFoundError m) = m"
| "str_of (TypeError m) = m"
| "str_of (JSONDecodeError m) = m"
| "str_of (KeyError m) = m"

text \<open>
  The collaborators of the loader, which are not code of this repository: the file
  system, \<^verbatim>\<open>json.load\<close> on an opened file, \<^verbatim>\<open>bytes.fromhex\<close> and the codec's
  \<^verbatim>\<open>Transaction.from_cbor\<close>. Each may raise.
\<close>

record 'a world =
  path_exists :: "string \<Rightarrow> bool"
  path_is_file :: "string \<Rightarrow> bool"
  open_json_load :: "string \<Rightarrow> py_error + json"
  bytes_fromhex :: "string \<Rightarrow> py_error + nat list"
  Transaction_from_cbor :: "nat list \<Rightarrow> py_error + 'a Transaction"

record 'a TransactionData =
  cbor_hex :: string
  transaction :: "'a Transaction"

record 'a TransactionParser =
  transaction_data :: "'a TransactionData option"

text \<open>\<^verbatim>\<open>utils.check_file_exists\<close> and \<^verbatim>\<open>utils.load_json_file\<close>.\<close>

definition check_file_exists :: "'a world \<Rightarrow> string \<Rightarrow> py_error + unit" where
  "check_file_exists w fpath =
     (if \<not> path_exists w fpath \<or> \<not> path_is_file w fpath
      then Inl (FileNotFoundError
             (''[Errno 2] No such file or directory: '' @ [CHR 0x27] @ fpath @ [CHR 0x27]))
      else Inr ())"

definition load_json_file :: "'a world \<Rightarrow> string \<Rightarrow> py_error + json" where
  "load_json_file w fpath =
     (case check_file_exists w fpath of
        Inl e \<Rightarrow> Inl e
      | Inr _ \<Rightarrow> open_json_load w fpath)"

text \<open>Does the text \<open>p\<close> occur in \<open>s\<close>: Python's \<^verbatim>\<open>in\<close> on two strings.\<close>

fun occurs_in :: "string \<Rightarrow> string \<Rightarrow> bool" where
  "occurs_in p [] = (p = [])"
| "occurs_in p (c # cs) = (take (length p) (c # cs) = p \<or> occurs_in p cs)"

text \<open>
  \<^verbatim>\<open>"cborHex" in data\<close> and \<^verbatim>\<open>data["cborHex"]\<close> on whatever \<^verbatim>\<open>json.load\<close> returned:
  a key test on a dictionary, an element test on a list, a substring test on a string,
  a \<^verbatim>\<open>TypeError\<close> on anything else; indexing by a string works on a dictionary only.
\<close>

fun contains_cborHex :: "json \<Rightarrow> py_error + bool" where
  "contains_cborHex (JObject items) = Inr (''cborHex'' \<in> set (map fst items))"
| "contains_cborHex (JArray xs) = Inr (JString ''cborHex'' \<in> set xs)"
| "contains_cborHex (JString s) = Inr (occurs_in ''cborHex'' s)"
| "contains_cborHex _ = Inl (TypeError ''argument is not iterable'')"

fun getitem_cborHex :: "json \<Rightarrow> py_error + json" where
  "getitem_cborHex (JObject items) =
     (case map_of items ''cborHex'' of
        None \<Rightarrow> Inl (KeyError ''cborHex'')
      | Some v \<Rightarrow> Inr v)"
| "getitem_cborHex (JArray xs) = Inl (TypeError ''list indices must be integers or slices, not str'')"
| "getitem_cborHex (JString s) = Inl (TypeError ''string indices must be integers, not str'')"
| "getitem_cborHex _ = Inl (TypeError ''object is not subscriptable'')"

text \<open>
  \<^verbatim>\<open>TransactionData._parse_transaction\<close>: every exception of the decoding becomes a
  \<^verbatim>\<open>ValueError\<close>. The argument is whatever the file held under \<^verbatim>\<open>cborHex\<close>;
  \<^verbatim>\<open>bytes.fromhex\<close> raises \<^verbatim>\<open>TypeError\<close> on anything but a string.
\<close>

definition parse_transaction :: "'a world \<Rightarrow> json \<Rightarrow> py_error + 'a Transaction" where
  "parse_transaction w cbor_hex_value =
     (case (case cbor_hex_value of
              JString h \<Rightarrow>
                (case bytes_fromhex w h of
                   Inl e \<Rightarrow> Inl e
                 | Inr cbor_bytes \<Rightarrow> Transaction_from_cbor w cbor_bytes)
            | _ \<Rightarrow> Inl (TypeError ''fromhex() argument must be str'')) of
        Inl e \<Rightarrow> Inl (ValueError (''Invalid CBOR hex or transaction format: '' @ str_of e))
      | Inr t \<Rightarrow> Inr t)"

text \<open>
  \<^verbatim>\<open>TransactionData.__init__\<close>: the object exists only when the decoding succeeded, and
  then \<^verbatim>\<open>cbor_hex\<close> is a string.
\<close>

definition TransactionData_init :: "'a world \<Rightarrow> json \<Rightarrow> py_error + 'a TransactionData" where
  "TransactionData_init w cbor_hex_value =
     (case parse_transaction w cbor_hex_value of
        Inl e \<Rightarrow> Inl e
      | Inr t \<Rightarrow>
          Inr \<lparr> cbor_hex = (case cbor_hex_value of JString h \<Rightarrow> h | _ \<Rightarrow> []),
                transaction = t \<rparr>)"

text \<open>
  The body of the \<^verbatim>\<open>try\<close> of \<^verbatim>\<open>parse_from_json\<close> up to the construction of the
  \<^verbatim>\<open>TransactionData\<close>; the assignment to \<^verbatim>\<open>self.transaction_data\<close> follows it.
\<close>

definition parse_from_json_try :: "'a world \<Rightarrow> string \<Rightarrow> py_error + 'a TransactionData" where
  "parse_from_json_try w json_file_path =
     (case load_json_file w json_file_path of
        Inl e \<Rightarrow> Inl e
      | Inr data \<Rightarrow>
         (case contains_cborHex data of
            Inl e \<Rightarrow> Inl e
          | Inr present \<Rightarrow>
              if \<not> present then Inl (ValueError ''JSON file must contain 'cborHex' field'')
              else (case getitem_cborHex data of
                      Inl e \<Rightarrow> Inl e
                    | Inr cbor_hex_value \<Rightarrow> TransactionData_init w cbor_hex_value)))"

text \<open>
  \<^verbatim>\<open>parse_from_json\<close>: the result and the parser after the call. The handler turns every
  exception of the \<^verbatim>\<open>try\<close> into a \<^verbatim>\<open>ValueError\<close>; the parser is assigned only on
  success.
\<close>

definition parse_from_json ::
  "'a world \<Rightarrow> 'a TransactionParser \<Rightarrow> string \<Rightarrow>
     (py_error + 'a TransactionData) \<times> 'a TransactionParser" where
  "parse_from_json w self json_file_path =
     (case parse_from_json_try w json_file_path of
        Inl e \<Rightarrow> (Inl (ValueError (''Failed to parse JSON file: '' @ str_of e)), self)
      | Inr td \<Rightarrow> (Inr td, self\<lparr>transaction_data := Some td\<rparr>))"

section \<open>Saving the export\<close>

text \<open>
  What \<^verbatim>\<open>save_export_to_file\<close> reads of the window: the loaded transaction data, the text
  of the export view and the selected era.
\<close>

record 'a MainWindow =
  window_transaction_data :: "'a TransactionData option"
  export_view :: string
  era_combo :: string

datatype save_outcome =
    Warning string
  | NoFileChosen
  | Critical string
  | DumpJsonFile string "(string \<times> string) list"

text \<open>The nested \<^verbatim>\<open>is_empty\<close>: every field is tested for truthiness, in the source's order.\<close>

definition is_empty :: "'a TransactionWitnessSet \<Rightarrow> bool" where
  "is_empty witness_set \<longleftrightarrow>
     \<not> truthy (vkey_witnesses witness_set)
     \<and> \<not> truthy (native_scripts witness_set)
     \<and> \<not> truthy (bootstrap_witness witness_set)
     \<and> \<not> truthy (plutus_v1_script witness_set)
     \<and> \<not> truthy (plutus_data witness_set)
     \<and> \<not> truthy (redeemer witness_set)
     \<and> \<not> truthy (plutus_v2_script witness_set)
     \<and> \<not> truthy (plutus_v3_script witness_set)"

text \<open>\<^verbatim>\<open>era.name.capitalize()\<close> on the two members of the enumeration.\<close>

fun Era_name_capitalize :: "Era \<Rightarrow> string" where
  "Era_name_capitalize BABBAGE = ''Babbage''"
| "Era_name_capitalize CONWAY = ''Conway''"

text \<open>
  \<^verbatim>\<open>save_export_to_file\<close>, given the path the file dialog returned (empty when it was
  cancelled) and the codec's \<^verbatim>\<open>to_cbor_hex\<close>. The result is the message shown or the
  call of \<^verbatim>\<open>dump_json_file\<close> with the dictionary in insertion order. Without loaded data
  the attribute access raises, which the handler reports.
\<close>

definition save_export_to_file ::
  "('a Transaction \<Rightarrow> py_error + string) \<Rightarrow> 'a MainWindow \<Rightarrow> string \<Rightarrow> save_outcome" where
  "save_export_to_file to_cbor_hex self file_path =
     (if export_view self = [] then Warning ''No export data to save!''
      else if file_path = [] then NoFileChosen
      else
        (case window_transaction_data self of
           None \<Rightarrow>
             Critical (''Failed to save export: 'NoneType' object has no attribute 'transaction''
                       @ [CHR 0x27])
         | Some td \<Rightarrow>
             let era = (if era_combo self = ''Babbage Era'' then BABBAGE else CONWAY);
                 tx_status = (if is_empty (transaction_witness_set (transaction td))
                              then ''Unwitnessed'' else ''Signed'')
             in (case to_cbor_hex (transaction td) of
                   Inl e \<Rightarrow> Critical (''Failed to save export: '' @ str_of e)
                 | Inr h \<Rightarrow>
                     DumpJsonFile file_path
                       [(''type'', tx_status @ '' Tx '' @ Era_name_capitalize era @ ''Era''),
                        (''description'', ''Generated by Cardano Transaction Sanitizer''),
                        (''cborHex'', h)])))"

section \<open>Notions used to state the properties\<close>

text \<open>The collection fields of a body other than inputs, outputs and certificates.\<close>

definition body_collections :: "'a TransactionBody \<Rightarrow> 'a coll option list" where
  "body_collections b = [collateral b, required_signers b, reference_inputs b]"

text \<open>The eight collection fields of a witness set.\<close>

definition witness_collections :: "'a TransactionWitnessSet \<Rightarrow> 'a coll option list" where
  "witness_collections w =
     [vkey_witnesses w, native_scripts w, bootstrap_witness w, plutus_v1_script w,
      plutus_v2_script w, plutus_v3_script w, plutus_data w, redeemer w]"

text \<open>A field that holds a \<^verbatim>\<open>NonEmptyOrderedSet\<close> without items: the schema violation.\<close>

fun empty_nonempty_set :: "'a coll option \<Rightarrow> bool" where
  "empty_nonempty_set (Some (NonEmptyOrderedSet xs)) = (xs = [])"
| "empty_nonempty_set _ = False"

text \<open>
  A set representation of the items \<open>xs\<close>: an ordered set or a non-empty ordered set
  whose items are pairwise different and are exactly the items of \<open>xs\<close>.
\<close>

fun set_of_items :: "'a list \<Rightarrow> 'a coll option \<Rightarrow> bool" where
  "set_of_items xs (Some (OrderedSet ys)) = (distinct ys \<and> set ys = set xs)"
| "set_of_items xs (Some (NonEmptyOrderedSet ys)) = (distinct ys \<and> set ys = set xs)"
| "set_of_items xs _ = False"

text \<open>
  The representation a collection type asks for, for the items \<open>xs\<close> of a source field:
  under \<^verbatim>\<open>LIST\<close> the plain list of the items in their order, under \<^verbatim>\<open>SET\<close> a set
  representation of the items.
\<close>

fun requested_repr :: "CollectionType \<Rightarrow> 'a list \<Rightarrow> 'a coll option \<Rightarrow> bool" where
  "requested_repr LIST xs t = (t = Some (PyList xs))"
| "requested_repr SET xs t = set_of_items xs t"
| "requested_repr DEFAULT xs t = False"

text \<open>A field that is present in the source but holds no item.\<close>

fun present_empty :: "'a coll option \<Rightarrow> bool" where
  "present_empty None = False"
| "present_empty (Some c) = (elems c = [])"

text \<open>The items of a field; an absent field has none.\<close>

fun items :: "'a coll option \<Rightarrow> 'a list" where
  "items None = []"
| "items (Some c) = elems c"

text \<open>A field that holds an \<^verbatim>\<open>OrderedSet\<close>.\<close>

fun is_OrderedSet :: "'a coll option \<Rightarrow> bool" where
  "is_OrderedSet (Some (OrderedSet xs)) = True"
| "is_OrderedSet _ = False"

section \<open>Example transactions\<close>

definition no_body :: "nat TransactionBody" where
  "no_body =
     \<lparr> inputs = None, outputs = [], fee = 0, ttl = None, certificates = None,
       withdraws = None, update = None, auxiliary_data_hash = None, validity_start = None,
       mint = None, script_data_hash = None, collateral = None, required_signers = None,
       network_id = None, collateral_return = None, total_collateral = None,
       reference_inputs = None \<rparr>"

definition no_witnesses :: "nat TransactionWitnessSet" where
  "no_witnesses =
     \<lparr> vkey_witnesses = None, native_scripts = None, bootstrap_witness = None,
       plutus_v1_script = None, plutus_v2_script = None, plutus_v3_script = None,
       plutus_data = None, redeemer = None \<rparr>"

text \<open>A transaction with two outputs and nothing else.\<close>

definition bare_tx :: "nat Transaction" where
  "bare_tx =
     \<lparr> transaction_body = no_body\<lparr>outputs := [7, 8]\<rparr>,
       transaction_witness_set = no_witnesses,
       auxiliary_data = None, valid = True \<rparr>"

text \<open>Pool parameters with the owners 1, 2, 1 in a list, and with an empty list of owners.\<close>

definition pool_121 :: "nat PoolParams" where
  "pool_121 =
     \<lparr> operator = 10, vrf_keyhash = 11, pledge = 500, cost = 340, margin = 12,
       reward_account = 13, pool_owners = Some (PyList [1, 2, 1]), relays = None,
       pool_metadata = Some 14 \<rparr>"

definition pool_no_owners :: "nat PoolParams" where
  "pool_no_owners = pool_121\<lparr>pool_owners := Some (PyList [])\<rparr>"

text \<open>A transaction with a given list of certificates and a given key witness field.\<close>

definition tx_with :: "nat Certificate list \<Rightarrow> nat coll option \<Rightarrow> nat Transaction" where
  "tx_with certs vkeys =
     \<lparr> transaction_body = no_body\<lparr>outputs := [7, 8], certificates := Some (PyList certs)\<rparr>,
       transaction_witness_set = no_witnesses\<lparr>vkey_witnesses := vkeys\<rparr>,
       auxiliary_data = None, valid = True \<rparr>"

text \<open>A transaction with two outputs and a given redeemer field.\<close>

definition tx_with_redeemer :: "nat coll option \<Rightarrow> nat Transaction" where
  "tx_with_redeemer r =
     \<lparr> transaction_body = no_body\<lparr>outputs := [7, 8]\<rparr>,
       transaction_witness_set = no_witnesses\<lparr>redeemer := r\<rparr>,
       auxiliary_data = None, valid = True \<rparr>"

text \<open>
  A world in which only \<^verbatim>\<open>tx.json\<close> exists, with given results of loading the file, of
  \<^verbatim>\<open>bytes.fromhex\<close> and of the decoder.
\<close>

definition world_with ::
  "py_error + json \<Rightarrow> py_error + nat list \<Rightarrow> py_error + nat Transaction \<Rightarrow> nat world" where
  "world_with loaded unhexed decoded =
     \<lparr> path_exists = (\<lambda>p. p = ''tx.json''),
       path_is_file = (\<lambda>p. p = ''tx.json''),
       open_json_load = (\<lambda>p. loaded),
       bytes_fromhex = (\<lambda>h. unhexed),
       Transaction_from_cbor = (\<lambda>b. decoded) \<rparr>"

text \<open>A parser that already holds a transaction.\<close>

definition loaded_parser :: "nat TransactionParser" where
  "loaded_parser = \<lparr> transaction_data = Some \<lparr> cbor_hex = ''00'', transaction = bare_tx \<rparr> \<rparr>"

text \<open>A window that holds a transaction and an export, with a given era selected.\<close>

definition window_with :: "nat Transaction \<Rightarrow> string \<Rightarrow> nat MainWindow" where
  "window_with tx era_text =
     \<lparr> window_transaction_data = Some \<lparr> cbor_hex = ''84a0'', transaction = tx \<rparr>,
       export_view = ''exported'',
       era_combo = era_text \<rparr>"

section \<open>Facts about the ordered set\<close>

lemma set_extend: "set (OrderedSet_extend acc xs) = set acc \<union> set xs"
  by (induction xs arbitrary: acc) auto

lemma distinct_extend: "distinct acc \<Longrightarrow> distinct (OrderedSet_extend acc xs)"
  by (induction xs arbitrary: acc) auto

lemma extend_distinct_append:
  "distinct xs \<Longrightarrow> set acc \<inter> set xs = {} \<Longrightarrow> OrderedSet_extend acc xs = acc @ xs"
  by (induction xs arbitrary: acc) auto

lemma extend_Nil_distinct: "distinct xs \<Longrightarrow> OrderedSet_extend [] xs = xs"
  using extend_distinct_append [of xs "[]"] by simp

lemma extend_ne: "xs \<noteq> [] \<Longrightarrow> OrderedSet_extend acc xs \<noteq> []"
  by (metis Un_empty set_empty set_extend)

lemma extend_idem: "OrderedSet_extend [] (OrderedSet_extend [] xs) = OrderedSet_extend [] xs"
  by (simp add: extend_Nil_distinct distinct_extend)

section \<open>The fields the builders compute\<close>

lemma if_truthy_falsy: "\<not> truthy v \<Longrightarrow> if_truthy v f d = d"
  by (cases v) (simp_all add: if_truthy_def)

lemma if_truthy_truthy: "elems c \<noteq> [] \<Longrightarrow> if_truthy (Some c) f d = f c"
  by (simp add: if_truthy_def)

lemma babbage_inputs: "inputs (build_babbage_transaction_body b ct) =
   if_truthy (inputs b) (\<lambda>v. Some (if ct = LIST then py_list v else OrderedSet_new v)) None"
  by (cases ct) (simp_all add: build_babbage_transaction_body_def)

lemma babbage_body_collections: "body_collections (build_babbage_transaction_body b ct) =
   map (\<lambda>x. if_truthy x (\<lambda>v. Some (if ct = LIST then py_list v else NonEmptyOrderedSet_new v)) None)
     (body_collections b)"
  by (cases ct) (simp_all add: build_babbage_transaction_body_def body_collections_def)

lemma babbage_certificates: "certificates (build_babbage_transaction_body b ct) =
   if_truthy (certificates b)
     (\<lambda>v. Some (if ct = SET then NonEmptyOrderedSet_new (process_certificates v BABBAGE ct)
               else py_list (process_certificates v BABBAGE ct))) None"
  by (cases ct) (simp_all add: build_babbage_transaction_body_def)

lemma conway_inputs: "inputs (build_conway_transaction_body b ct) =
   (if ct = LIST then if_truthy (inputs b) (\<lambda>v. Some (py_list v)) (Some (PyList []))
    else if_truthy (inputs b) (\<lambda>v. Some (OrderedSet_new v)) (Some PySetEmpty))"
  by (cases ct) (simp_all add: build_conway_transaction_body_def)

lemma conway_body_collections: "body_collections (build_conway_transaction_body b ct) =
   map (\<lambda>x. if_truthy x (\<lambda>v. Some (if ct = LIST then py_list v else NonEmptyOrderedSet_new v)) None)
     (body_collections b)"
  by (cases ct) (simp_all add: build_conway_transaction_body_def body_collections_def)

lemma conway_certificates: "certificates (build_conway_transaction_body b ct) =
   if_truthy (certificates b)
     (\<lambda>v. Some (if ct = LIST then py_list (process_certificates v CONWAY ct)
               else NonEmptyOrderedSet_new (process_certificates v CONWAY ct))) None"
  by (cases ct) (simp_all add: build_conway_transaction_body_def)

lemma babbage_witness: "witness_collections (build_babbage_witness_set w ct) =
   map (\<lambda>x. if_truthy x (\<lambda>v. Some (if ct = SET then NonEmptyOrderedSet_new v else py_list v)) None)
     (witness_collections w)"
  by (cases ct) (simp_all add: build_babbage_witness_set_def witness_collections_def)

lemma conway_witness: "witness_collections (build_conway_witness_set w ct) =
   map (\<lambda>x. if_truthy x (\<lambda>v. Some (if ct = LIST then py_list v else NonEmptyOrderedSet_new v)) None)
     (witness_collections w)"
  by (cases ct) (simp_all add: build_conway_witness_set_def witness_collections_def)

text \<open>The export never raises: each era has its builder.\<close>

lemma export_to_era_Inr:
  "export_to_era tx era ct =
     Inr (case era of BABBAGE \<Rightarrow> export_babbage tx ct | CONWAY \<Rightarrow> export_conway tx ct)"
  by (cases era) (simp_all add: export_to_era_def)

lemma export_babbage_body: "transaction_body (export_babbage tx ct) =
    build_babbage_transaction_body (transaction_body tx) ct"
  by (simp add: export_babbage_def)

lemma export_babbage_witness: "transaction_witness_set (export_babbage tx ct) =
    build_babbage_witness_set (transaction_witness_set tx) ct"
  by (simp add: export_babbage_def)

lemma export_conway_body: "transaction_body (export_conway tx ct) =
    build_conway_transaction_body (transaction_body tx) ct"
  by (simp add: export_conway_def)

lemma export_conway_witness: "transaction_witness_set (export_conway tx ct) =
    build_conway_witness_set (transaction_witness_set tx) ct"
  by (simp add: export_conway_def)

lemmas export_fields = export_babbage_body export_babbage_witness export_conway_body
  export_conway_witness babbage_inputs babbage_body_collections babbage_certificates
  conway_inputs conway_body_collections conway_certificates babbage_witness conway_witness

lemma falsy_fields_None:
  "list_all2 (\<lambda>s t. \<not> truthy s \<longrightarrow> t = None) xs (map (\<lambda>x. if_truthy x f None) xs)"
  by (induction xs) (simp_all add: if_truthy_falsy)

lemma not_empty_nonempty_if_truthy:
  "\<not> empty_nonempty_set d \<Longrightarrow>
   \<not> empty_nonempty_set (if_truthy v (\<lambda>c. Some (if P then py_list c else NonEmptyOrderedSet_new c)) d)"
  by (cases v) (auto simp: if_truthy_def py_list_def NonEmptyOrderedSet_new_def extend_ne)

lemma not_empty_nonempty_if_truthy':
  "\<not> empty_nonempty_set d \<Longrightarrow>
   \<not> empty_nonempty_set (if_truthy v (\<lambda>c. Some (if P then NonEmptyOrderedSet_new c else py_list c)) d)"
  by (cases v) (auto simp: if_truthy_def py_list_def NonEmptyOrderedSet_new_def extend_ne)

lemma not_empty_nonempty_inputs:
  "\<not> empty_nonempty_set d \<Longrightarrow>
   \<not> empty_nonempty_set (if_truthy v (\<lambda>c. Some (if P then py_list c else OrderedSet_new c)) d)"
  by (cases v) (auto simp: if_truthy_def py_list_def OrderedSet_new_def)

lemma not_empty_nonempty_inputs2:
  "\<not> empty_nonempty_set d \<Longrightarrow>
   \<not> empty_nonempty_set (if_truthy v (\<lambda>c. Some (OrderedSet_new c)) d)"
  "\<not> empty_nonempty_set d \<Longrightarrow>
   \<not> empty_nonempty_set (if_truthy v (\<lambda>c. Some (py_list c)) d)"
  by (cases v; auto simp: if_truthy_def py_list_def OrderedSet_new_def)+

lemma process_certificates_ne: "elems v \<noteq> [] \<Longrightarrow> elems (process_certificates v era ct) \<noteq> []"
  by (simp add: process_certificates_def)

lemma not_empty_nonempty_certs:
   "\<not> empty_nonempty_set (if_truthy v (\<lambda>c. Some (if P then NonEmptyOrderedSet_new (process_certificates c era ct) else py_list (process_certificates c era ct))) None)"
   "\<not> empty_nonempty_set (if_truthy v (\<lambda>c. Some (if P then py_list (process_certificates c era ct) else NonEmptyOrderedSet_new (process_certificates c era ct))) None)"
  by (cases v; auto simp: if_truthy_def py_list_def NonEmptyOrderedSet_new_def extend_ne process_certificates_ne)+

lemma list_all_not_empty_nonempty:
  "list_all (\<lambda>t. \<not> empty_nonempty_set t)
     (map (\<lambda>x. if_truthy x (\<lambda>v. Some (if P then py_list v else NonEmptyOrderedSet_new v)) None) xs)"
  "list_all (\<lambda>t. \<not> empty_nonempty_set t)
     (map (\<lambda>x. if_truthy x (\<lambda>v. Some (if P then NonEmptyOrderedSet_new v else py_list v)) None) xs)"
  by (induction xs) (simp_all add: not_empty_nonempty_if_truthy not_empty_nonempty_if_truthy')

section \<open>The certificates of the export\<close>

lemma elems_processed [simp]:
  "elems v \<noteq> [] \<Longrightarrow>
   elems (process_certificates v era ct) = map (process_certificate ct) (elems v)"
  by (simp add: process_certificates_def)

lemma certificates_exported:
  assumes "certificates (transaction_body tx) = Some cs" and "elems cs \<noteq> []"
  shows "\<exists>cs'. certificates (transaction_body (export_babbage tx ct)) = Some cs' \<and>
           set (elems cs') = process_certificate ct ` set (elems cs)"
    and "\<exists>cs'. certificates (transaction_body (export_conway tx ct)) = Some cs' \<and>
           set (elems cs') = process_certificate ct ` set (elems cs)"
  using assms
  by (simp_all add: export_fields if_truthy_truthy py_list_def NonEmptyOrderedSet_new_def
      set_extend)

lemma process_unchanged:
  "process_certificate ct (PoolRegistration None) = PoolRegistration None"
  "\<not> truthy (pool_owners pp) \<Longrightarrow>
     process_certificate ct (PoolRegistration (Some pp)) = PoolRegistration (Some pp)"
  "process_certificate ct (OtherCertificate x) = OtherCertificate x"
  by (auto simp: process_pool_registration_cert_def split: option.splits)

lemma certificate_kept:
  assumes "certificates (transaction_body tx) = Some cs" and "c \<in> set (elems cs)"
    and "process_certificate ct c = c"
  shows "\<exists>cs'. certificates (transaction_body (export_babbage tx ct)) = Some cs' \<and>
           c \<in> set (elems cs')"
    and "\<exists>cs'. certificates (transaction_body (export_conway tx ct)) = Some cs' \<and>
           c \<in> set (elems cs')"
proof -
  from assms(2) have ne: "elems cs \<noteq> []" by auto
  from certificates_exported(1) [OF assms(1) ne, of ct] assms(2,3)
  show "\<exists>cs'. certificates (transaction_body (export_babbage tx ct)) = Some cs' \<and>
           c \<in> set (elems cs')"
    by (metis image_eqI)
  from certificates_exported(2) [OF assms(1) ne, of ct] assms(2,3)
  show "\<exists>cs'. certificates (transaction_body (export_conway tx ct)) = Some cs' \<and>
           c \<in> set (elems cs')"
    by (metis image_eqI)
qed

lemma absent_fields_None:
  "list_all2 (\<lambda>s t. s = None \<longrightarrow> t = None) xs (map (\<lambda>x. if_truthy x f None) xs)"
  by (induction xs) (simp_all add: if_truthy_def)

lemma present_empty_fields_None:
  "list_all2 (\<lambda>s t. present_empty s \<longrightarrow> t = None) xs (map (\<lambda>x. if_truthy x f None) xs)"
proof (induction xs)
  case Nil
  show ?case by simp
next
  case (Cons x xs)
  have "present_empty x \<longrightarrow> if_truthy x f None = None"
    by (cases x) (simp_all add: if_truthy_def)
  with Cons show ?case by simp
qed

lemma present_empty_falsy: "present_empty v \<Longrightarrow> \<not> truthy v"
  by (cases v) simp_all

lemma present_empty_if_truthy: "present_empty v \<Longrightarrow> if_truthy v f d = d"
  by (cases v) (simp_all add: if_truthy_def)

lemma truthy_items: "truthy v \<longleftrightarrow> items v \<noteq> []"
  by (cases v) simp_all

lemma process_truthy:
  assumes "truthy (pool_owners pp)"
  shows "process_certificate ct (PoolRegistration (Some pp)) =
     PoolRegistration (Some (pp\<lparr>pool_owners :=
        Some (if ct = LIST then PyList (items (pool_owners pp))
              else OrderedSet (OrderedSet_extend [] (items (pool_owners pp))))\<rparr>))"
proof -
  from assms obtain owners where o: "pool_owners pp = Some owners" "elems owners \<noteq> []"
    by (cases "pool_owners pp") simp_all
  show ?thesis
    by (cases pp; cases ct)
       (use o in \<open>simp_all add: process_pool_registration_cert_def py_list_def OrderedSet_new_def\<close>)
qed

lemma certificates_SET:
  assumes "certificates (transaction_body tx) = Some cs" and "elems cs \<noteq> []"
  shows "certificates (transaction_body (export_babbage tx SET)) =
           Some (NonEmptyOrderedSet (OrderedSet_extend [] (map (process_certificate SET) (elems cs))))"
    and "certificates (transaction_body (export_conway tx SET)) =
           Some (NonEmptyOrderedSet (OrderedSet_extend [] (map (process_certificate SET) (elems cs))))"
  using assms
  by (simp_all add: export_fields if_truthy_truthy NonEmptyOrderedSet_new_def)

lemma certificates_LIST:
  assumes "certificates (transaction_body tx) = Some cs" and "elems cs \<noteq> []"
  shows "certificates (transaction_body (export_babbage tx LIST)) =
           Some (PyList (map (process_certificate LIST) (elems cs)))"
    and "certificates (transaction_body (export_conway tx LIST)) =
           Some (PyList (map (process_certificate LIST) (elems cs)))"
  using assms
  by (simp_all add: export_fields if_truthy_truthy py_list_def)

lemma certificates_listed:
  assumes "certificates (transaction_body tx) = Some cs" and "elems cs \<noteq> []"
  shows "(era = BABBAGE \<and> (ct = DEFAULT \<or> ct = LIST)) \<or> (era = CONWAY \<and> ct = LIST) \<Longrightarrow>
         certificates (transaction_body
             (case era of BABBAGE \<Rightarrow> export_babbage tx ct | CONWAY \<Rightarrow> export_conway tx ct)) =
           Some (PyList (map (process_certificate ct) (elems cs)))"
  using assms
  by (cases era; cases ct)
     (simp_all add: export_fields if_truthy_truthy py_list_def)

lemma repr_field:
  assumes "ct = LIST \<or> ct = SET" and "truthy s"
  shows "requested_repr ct (items s)
           (if_truthy s (\<lambda>v. Some (if ct = LIST then py_list v else NonEmptyOrderedSet_new v)) d)"
    and "requested_repr ct (items s)
           (if_truthy s (\<lambda>v. Some (if ct = SET then NonEmptyOrderedSet_new v else py_list v)) d)"
    and "requested_repr ct (items s)
           (if_truthy s (\<lambda>v. Some (if ct = LIST then py_list v else OrderedSet_new v)) d)"
    and "requested_repr ct (items s)
           (if ct = LIST then if_truthy s (\<lambda>v. Some (py_list v)) d
            else if_truthy s (\<lambda>v. Some (OrderedSet_new v)) d')"
  using assms
  by (cases s; auto simp: if_truthy_def py_list_def NonEmptyOrderedSet_new_def OrderedSet_new_def
        set_extend distinct_extend)+

lemma repr_fields:
  assumes "ct = LIST \<or> ct = SET"
  shows "list_all2 (\<lambda>s t. truthy s \<longrightarrow> requested_repr ct (items s) t) xs
           (map (\<lambda>x. if_truthy x (\<lambda>v. Some (if ct = LIST then py_list v else NonEmptyOrderedSet_new v)) None) xs)"
    and "list_all2 (\<lambda>s t. truthy s \<longrightarrow> requested_repr ct (items s) t) xs
           (map (\<lambda>x. if_truthy x (\<lambda>v. Some (if ct = SET then NonEmptyOrderedSet_new v else py_list v)) None) xs)"
  by (induction xs) (simp_all add: repr_field [OF assms])

lemma repr_certificates:
  assumes "ct = LIST \<or> ct = SET" and "truthy s"
  shows "requested_repr ct (map (process_certificate ct) (items s))
           (if_truthy s (\<lambda>v. Some (if ct = SET then NonEmptyOrderedSet_new (process_certificates v era ct)
               else py_list (process_certificates v era ct))) None)"
    and "requested_repr ct (map (process_certificate ct) (items s))
           (if_truthy s (\<lambda>v. Some (if ct = LIST then py_list (process_certificates v era ct)
               else NonEmptyOrderedSet_new (process_certificates v era ct))) None)"
  using assms
  by (cases s; auto simp: if_truthy_def py_list_def NonEmptyOrderedSet_new_def
        set_extend distinct_extend)+

lemma repr_pool_owners:
  assumes "ct = LIST \<or> ct = SET" and "truthy (pool_owners pp)"
  shows "\<exists>pp'. process_certificate ct (PoolRegistration (Some pp)) = PoolRegistration (Some pp') \<and>
           requested_repr ct (items (pool_owners pp)) (pool_owners pp')"
  using assms process_truthy [OF assms(2), of ct] by (auto simp: set_extend distinct_extend)

lemma certificate_processed:
  assumes "certificates (transaction_body tx) = Some cs" and "c \<in> set (elems cs)"
  shows "\<exists>cs'. certificates (transaction_body (export_babbage tx ct)) = Some cs' \<and>
           process_certificate ct c \<in> set (elems cs')"
    and "\<exists>cs'. certificates (transaction_body (export_conway tx ct)) = Some cs' \<and>
           process_certificate ct c \<in> set (elems cs')"
proof -
  from assms(2) have ne: "elems cs \<noteq> []" by auto
  from certificates_exported(1) [OF assms(1) ne, of ct] assms(2)
  show "\<exists>cs'. certificates (transaction_body (export_babbage tx ct)) = Some cs' \<and>
           process_certificate ct c \<in> set (elems cs')"
    by (metis image_eqI)
  from certificates_exported(2) [OF assms(1) ne, of ct] assms(2)
  show "\<exists>cs'. certificates (transaction_body (export_conway tx ct)) = Some cs' \<and>
           process_certificate ct c \<in> set (elems cs')"
    by (metis image_eqI)
qed

section \<open>Exporting twice\<close>

lemma process_certificate_idem:
  "process_certificate ct (process_certificate ct c) = process_certificate ct c"
proof (cases c)
  case (OtherCertificate x)
  then show ?thesis by simp
next
  case (PoolRegistration po)
  show ?thesis
  proof (cases po)
    case None
    with PoolRegistration show ?thesis by (simp add: process_unchanged(1) del: process_certificate.simps)
  next
    case (Some pp)
    show ?thesis
    proof (cases "truthy (pool_owners pp)")
      case False
      with PoolRegistration Some show ?thesis
        by (simp add: process_unchanged(2) del: process_certificate.simps)
    next
      case True
      let ?pp' = "pp\<lparr>pool_owners :=
        Some (if ct = LIST then PyList (items (pool_owners pp))
              else OrderedSet (OrderedSet_extend [] (items (pool_owners pp))))\<rparr>"
      from True have ne: "items (pool_owners pp) \<noteq> []"
        by (simp add: truthy_items)
      then have t': "truthy (pool_owners ?pp')"
        by (simp add: extend_ne)
      have "process_certificate ct (PoolRegistration (Some ?pp')) = PoolRegistration (Some ?pp')"
        unfolding process_truthy [OF t'] by (simp add: extend_idem)
      with process_truthy [OF True, of ct] PoolRegistration Some show ?thesis
        by (simp del: process_certificate.simps)
    qed
  qed
qed

lemma map_process_idem:
  "map (process_certificate ct) (map (process_certificate ct) xs) = map (process_certificate ct) xs"
  by (simp add: process_certificate_idem)

lemma map_process_extend:
  "map (process_certificate ct) (OrderedSet_extend [] (map (process_certificate ct) xs)) =
     OrderedSet_extend [] (map (process_certificate ct) xs)"
  by (rule map_idI) (auto simp: set_extend process_certificate_idem)

lemma if_truthy_idem:
  "if_truthy (if_truthy v (\<lambda>c. Some (py_list c)) None) (\<lambda>c. Some (py_list c)) None =
     if_truthy v (\<lambda>c. Some (py_list c)) None"
  "if_truthy (if_truthy v (\<lambda>c. Some (OrderedSet_new c)) None) (\<lambda>c. Some (OrderedSet_new c)) None =
     if_truthy v (\<lambda>c. Some (OrderedSet_new c)) None"
  "if_truthy (if_truthy v (\<lambda>c. Some (NonEmptyOrderedSet_new c)) None)
       (\<lambda>c. Some (NonEmptyOrderedSet_new c)) None =
     if_truthy v (\<lambda>c. Some (NonEmptyOrderedSet_new c)) None"
  "if_truthy (if_truthy v (\<lambda>c. Some (OrderedSet_new c)) (Some PySetEmpty))
       (\<lambda>c. Some (OrderedSet_new c)) (Some PySetEmpty) =
     if_truthy v (\<lambda>c. Some (OrderedSet_new c)) (Some PySetEmpty)"
  by (cases v; simp add: if_truthy_def py_list_def OrderedSet_new_def NonEmptyOrderedSet_new_def
        extend_ne extend_idem)+

lemma process_list_idem:
  assumes "elems c \<noteq> []"
  shows "py_list (process_certificates (py_list (process_certificates c era ct)) era' ct) =
           py_list (process_certificates c era ct)"
proof -
  let ?ys = "map (process_certificate ct) (elems c)"
  from assms have 1: "py_list (process_certificates c era ct) = PyList ?ys"
    by (simp add: py_list_def process_certificates_def)
  from assms have "elems (PyList ?ys) \<noteq> []"
    by simp
  then have "process_certificates (PyList ?ys) era' ct =
      PyList (map (process_certificate ct) ?ys)"
    by (simp only: process_certificates_def elems.simps if_False)
  then have "py_list (process_certificates (PyList ?ys) era' ct) = PyList ?ys"
    by (simp only: py_list_def elems.simps map_process_idem)
  with 1 show ?thesis by simp
qed

lemma process_set_idem:
  assumes "elems c \<noteq> []"
  shows "NonEmptyOrderedSet_new
           (process_certificates (NonEmptyOrderedSet_new (process_certificates c era ct)) era' ct) =
         NonEmptyOrderedSet_new (process_certificates c era ct)"
proof -
  let ?ys = "OrderedSet_extend [] (map (process_certificate ct) (elems c))"
  from assms have 1: "NonEmptyOrderedSet_new (process_certificates c era ct) =
      NonEmptyOrderedSet ?ys"
    by (simp add: NonEmptyOrderedSet_new_def process_certificates_def)
  from assms have "elems (NonEmptyOrderedSet ?ys) \<noteq> []"
    by (simp add: extend_ne)
  then have "process_certificates (NonEmptyOrderedSet ?ys) era' ct =
      PyList (map (process_certificate ct) ?ys)"
    by (simp only: process_certificates_def elems.simps if_False)
  then have "process_certificates (NonEmptyOrderedSet ?ys) era' ct = PyList ?ys"
    by (simp only: map_process_extend)
  then have "NonEmptyOrderedSet_new (process_certificates (NonEmptyOrderedSet ?ys) era' ct) =
      NonEmptyOrderedSet ?ys"
    by (simp only: NonEmptyOrderedSet_new_def elems.simps extend_idem)
  with 1 show ?thesis by simp
qed

lemma if_truthy_certificates_idem:
  "if_truthy (if_truthy v (\<lambda>c. Some (py_list (process_certificates c era ct))) None)
       (\<lambda>c. Some (py_list (process_certificates c era' ct))) None =
     if_truthy v (\<lambda>c. Some (py_list (process_certificates c era ct))) None"
  "if_truthy (if_truthy v (\<lambda>c. Some (NonEmptyOrderedSet_new (process_certificates c era ct))) None)
       (\<lambda>c. Some (NonEmptyOrderedSet_new (process_certificates c era' ct))) None =
     if_truthy v (\<lambda>c. Some (NonEmptyOrderedSet_new (process_certificates c era ct))) None"
proof -
  show "if_truthy (if_truthy v (\<lambda>c. Some (py_list (process_certificates c era ct))) None)
       (\<lambda>c. Some (py_list (process_certificates c era' ct))) None =
     if_truthy v (\<lambda>c. Some (py_list (process_certificates c era ct))) None"
  proof (cases "truthy v")
    case False
    then show ?thesis by (simp add: if_truthy_falsy)
  next
    case True
    then obtain c where v: "v = Some c" and ne: "elems c \<noteq> []"
      by (cases v) simp_all
    have ne2: "elems (py_list (process_certificates c era ct)) \<noteq> []"
      using ne by (simp add: py_list_def process_certificates_def)
    show ?thesis
      unfolding v
      by (simp only: if_truthy_truthy [OF ne] if_truthy_truthy [OF ne2] process_list_idem [OF ne])
  qed
  show "if_truthy (if_truthy v (\<lambda>c. Some (NonEmptyOrderedSet_new (process_certificates c era ct))) None)
       (\<lambda>c. Some (NonEmptyOrderedSet_new (process_certificates c era' ct))) None =
     if_truthy v (\<lambda>c. Some (NonEmptyOrderedSet_new (process_certificates c era ct))) None"
  proof (cases "truthy v")
    case False
    then show ?thesis by (simp add: if_truthy_falsy)
  next
    case True
    then obtain c where v: "v = Some c" and ne: "elems c \<noteq> []"
      by (cases v) simp_all
    have ne2: "elems (NonEmptyOrderedSet_new (process_certificates c era ct)) \<noteq> []"
      using ne by (simp add: NonEmptyOrderedSet_new_def process_certificates_def extend_ne)
    show ?thesis
      unfolding v
      by (simp only: if_truthy_truthy [OF ne] if_truthy_truthy [OF ne2] process_set_idem [OF ne])
  qed
qed

lemma export_babbage_idem:
  "export_babbage (export_babbage tx DEFAULT) DEFAULT = export_babbage tx DEFAULT"
  by (simp add: export_babbage_def build_babbage_transaction_body_def
      build_babbage_witness_set_def if_truthy_idem if_truthy_certificates_idem)

lemma export_conway_idem:
  "export_conway (export_conway tx DEFAULT) DEFAULT = export_conway tx DEFAULT"
  by (simp add: export_conway_def build_conway_transaction_body_def
      build_conway_witness_set_def if_truthy_idem if_truthy_certificates_idem)

section \<open>Facts about the loader and the save path\<close>

lemma parse_from_json_cases:
  "parse_from_json w self p =
     (case parse_from_json_try w p of
        Inl e \<Rightarrow> (Inl (ValueError (''Failed to parse JSON file: '' @ str_of e)), self)
      | Inr td \<Rightarrow> (Inr td, self\<lparr>transaction_data := Some td\<rparr>))"
  by (simp add: parse_from_json_def)

lemma try_file_missing:
  "\<not> path_exists w p \<or> \<not> path_is_file w p \<Longrightarrow> \<exists>e. parse_from_json_try w p = Inl e"
  by (auto simp: parse_from_json_try_def load_json_file_def check_file_exists_def)

lemma try_invalid_json:
  "open_json_load w p = Inl e \<Longrightarrow> \<exists>e'. parse_from_json_try w p = Inl e'"
  by (auto simp: parse_from_json_try_def load_json_file_def split: sum.splits)

lemma try_missing_field:
  "open_json_load w p = Inr (JObject kvs) \<Longrightarrow> ''cborHex'' \<notin> set (map fst kvs) \<Longrightarrow>
   \<exists>e'. parse_from_json_try w p = Inl e'"
  by (auto simp: parse_from_json_try_def load_json_file_def split: sum.splits)

lemma map_of_cborHex:
  "map_of kvs ''cborHex'' = Some v \<Longrightarrow> ''cborHex'' \<in> set (map fst kvs)"
  by (metis map_of_eq_None_iff option.discI set_map)

lemma try_decode_failure:
  assumes "open_json_load w p = Inr (JObject kvs)"
    and "map_of kvs ''cborHex'' = Some (JString h)"
    and "bytes_fromhex w h = Inl e \<or>
         (\<exists>b. bytes_fromhex w h = Inr b \<and> Transaction_from_cbor w b = Inl e)"
  shows "\<exists>e'. parse_from_json_try w p = Inl e'"
  using assms map_of_cborHex [OF assms(2)]
  by (auto simp: parse_from_json_try_def load_json_file_def TransactionData_init_def
      parse_transaction_def split: sum.splits)

lemma try_success:
  assumes "path_exists w p" and "path_is_file w p"
    and "open_json_load w p = Inr (JObject kvs)"
    and "map_of kvs ''cborHex'' = Some (JString h)"
    and "bytes_fromhex w h = Inr b" and "Transaction_from_cbor w b = Inr t"
  shows "parse_from_json_try w p = Inr \<lparr> cbor_hex = h, transaction = t \<rparr>"
  using assms map_of_cborHex [OF assms(4)]
  by (simp add: parse_from_json_try_def load_json_file_def check_file_exists_def
      TransactionData_init_def parse_transaction_def)

lemma is_empty_iff: "is_empty ws \<longleftrightarrow> list_all (\<lambda>f. \<not> truthy f) (witness_collections ws)"
  by (auto simp: is_empty_def witness_collections_def)

section \<open>The outputs are never reshaped\<close>

lemma outputs_babbage: "outputs (build_babbage_transaction_body b ct) = outputs b"
  by (cases ct) (simp_all add: build_babbage_transaction_body_def)

lemma outputs_conway: "outputs (build_conway_transaction_body b ct) = outputs b"
  by (cases ct) (simp_all add: build_conway_transaction_body_def)

text \<open>
  Claim C3. For every transaction, era and collection type the export succeeds and the
  outputs of the exported body are the outputs of the source body: the same list, so the
  same elements in the same order.
\<close>

theorem outputs_preserved:
  "\<exists>tx'. export_to_era tx era collection_type = Inr tx' \<and>
     outputs (transaction_body tx') = outputs (transaction_body tx)"
  by (cases era) (simp_all add: export_to_era_def export_babbage_def export_conway_def
      outputs_babbage outputs_conway)

section \<open>Empty and absent collections\<close>

text \<open>
  Claim C1. Under Conway with the default collection type, a transaction whose
  certificates are empty or absent is exported without certificates. More generally,
  for every era and collection type: an empty or absent certificates, collateral,
  required signers, reference inputs or witness-set field is absent in the export, and
  no field of the export, the inputs included, is a non-empty ordered set without items.
\<close>

theorem no_empty_nonempty_set:
  "(\<exists>tx'. export_to_era tx CONWAY DEFAULT = Inr tx' \<and>
      (\<not> truthy (certificates (transaction_body tx)) \<longrightarrow>
         certificates (transaction_body tx') = None))
   \<and> (\<exists>tx'. export_to_era tx era collection_type = Inr tx' \<and>
      (\<not> truthy (certificates (transaction_body tx)) \<longrightarrow>
         certificates (transaction_body tx') = None) \<and>
      list_all2 (\<lambda>s t. \<not> truthy s \<longrightarrow> t = None)
        (body_collections (transaction_body tx)) (body_collections (transaction_body tx')) \<and>
      list_all2 (\<lambda>s t. \<not> truthy s \<longrightarrow> t = None)
        (witness_collections (transaction_witness_set tx))
        (witness_collections (transaction_witness_set tx')) \<and>
      \<not> empty_nonempty_set (inputs (transaction_body tx')) \<and>
      \<not> empty_nonempty_set (certificates (transaction_body tx')) \<and>
      list_all (\<lambda>t. \<not> empty_nonempty_set t)
        (body_collections (transaction_body tx') @ witness_collections (transaction_witness_set tx')))"
proof (intro conjI)
  show "\<exists>tx'. export_to_era tx CONWAY DEFAULT = Inr tx' \<and>
      (\<not> truthy (certificates (transaction_body tx)) \<longrightarrow>
         certificates (transaction_body tx') = None)"
    by (simp add: export_to_era_def export_fields if_truthy_falsy)
next
  show "\<exists>tx'. export_to_era tx era collection_type = Inr tx' \<and>
      (\<not> truthy (certificates (transaction_body tx)) \<longrightarrow>
         certificates (transaction_body tx') = None) \<and>
      list_all2 (\<lambda>s t. \<not> truthy s \<longrightarrow> t = None)
        (body_collections (transaction_body tx)) (body_collections (transaction_body tx')) \<and>
      list_all2 (\<lambda>s t. \<not> truthy s \<longrightarrow> t = None)
        (witness_collections (transaction_witness_set tx))
        (witness_collections (transaction_witness_set tx')) \<and>
      \<not> empty_nonempty_set (inputs (transaction_body tx')) \<and>
      \<not> empty_nonempty_set (certificates (transaction_body tx')) \<and>
      list_all (\<lambda>t. \<not> empty_nonempty_set t)
        (body_collections (transaction_body tx') @ witness_collections (transaction_witness_set tx'))"
  proof (cases era)
    case BABBAGE
    then show ?thesis
      by (simp add: export_to_era_def export_fields if_truthy_falsy falsy_fields_None
          not_empty_nonempty_inputs not_empty_nonempty_certs list_all_not_empty_nonempty)
  next
    case CONWAY
    then show ?thesis
      by (simp add: export_to_era_def export_fields if_truthy_falsy falsy_fields_None
          not_empty_nonempty_inputs2 not_empty_nonempty_certs list_all_not_empty_nonempty)
  qed
qed

theorem no_empty_nonempty_set_witness:
  "\<not> truthy (certificates (transaction_body (tx_with [] (Some (NonEmptyOrderedSet []))))) \<and>
   list_all (\<lambda>s. \<not> truthy s)
     (body_collections (transaction_body (tx_with [] (Some (NonEmptyOrderedSet []))))) \<and>
   list_all (\<lambda>s. \<not> truthy s)
     (witness_collections (transaction_witness_set (tx_with [] (Some (NonEmptyOrderedSet []))))) \<and>
   (\<exists>tx'. export_to_era (tx_with [] (Some (NonEmptyOrderedSet []))) CONWAY DEFAULT = Inr tx' \<and>
      certificates (transaction_body tx') = None \<and>
      body_collections (transaction_body tx') = [None, None, None] \<and>
      witness_collections (transaction_witness_set tx') =
        [None, None, None, None, None, None, None, None])"
proof -
  let ?T = "tx_with [] (Some (NonEmptyOrderedSet [])) :: nat Transaction"
  have certs: "\<not> truthy (certificates (transaction_body ?T))"
    by (simp add: tx_with_def no_body_def)
  have body: "body_collections (transaction_body ?T) = [None, None, None]"
    by (simp add: tx_with_def no_body_def body_collections_def)
  have wits: "witness_collections (transaction_witness_set ?T) =
      [Some (NonEmptyOrderedSet []), None, None, None, None, None, None, None]"
    by (simp add: tx_with_def no_witnesses_def witness_collections_def)
  from no_empty_nonempty_set [of ?T CONWAY DEFAULT]
  obtain tx' where tx': "export_to_era ?T CONWAY DEFAULT = Inr tx'"
    and c: "\<not> truthy (certificates (transaction_body ?T)) \<longrightarrow>
         certificates (transaction_body tx') = None"
    and b: "list_all2 (\<lambda>s t. \<not> truthy s \<longrightarrow> t = None)
        (body_collections (transaction_body ?T)) (body_collections (transaction_body tx'))"
    and w: "list_all2 (\<lambda>s t. \<not> truthy s \<longrightarrow> t = None)
        (witness_collections (transaction_witness_set ?T))
        (witness_collections (transaction_witness_set tx'))"
    by blast
  from b have "body_collections (transaction_body tx') = [None, None, None]"
    unfolding body by (simp add: list_all2_Cons1)
  moreover from w have "witness_collections (transaction_witness_set tx') =
        [None, None, None, None, None, None, None, None]"
    unfolding wits by (simp add: list_all2_Cons1)
  moreover from c certs have "certificates (transaction_body tx') = None" by simp
  ultimately show ?thesis
    using tx' certs by (simp add: body wits)
qed



section \<open>A pool registration without pool parameters\<close>

text \<open>
  Claim C4 says that a pool registration without pool parameters makes the export fail.
  It does not: under Babbage with the default collection type a transaction with such a
  certificate is exported, and the export equals the source.
\<close>

theorem missing_pool_params_counterexample:
  "export_to_era (tx_with [PoolRegistration None] None) BABBAGE DEFAULT =
     Inr (tx_with [PoolRegistration None] None)"
  by (simp add: export_to_era_def export_babbage_def build_babbage_transaction_body_def
      build_babbage_witness_set_def tx_with_def no_body_def no_witnesses_def if_truthy_def
      process_certificates_def process_pool_registration_cert_def py_list_def)


text \<open>
  Claim C4, amended. A pool registration without pool parameters raises no error of its
  own: for every collection type \<^verbatim>\<open>_process_pool_registration_cert\<close> returns it as it is.
  Under the combinations that collect the certificates in a plain list (Babbage with
  \<^verbatim>\<open>DEFAULT\<close> or \<^verbatim>\<open>LIST\<close>, Conway with \<^verbatim>\<open>LIST\<close>) the export succeeds, and such a
  certificate of the source is in the exported list of certificates, unchanged. Nothing
  is stated for the combinations that collect the certificates in a non-empty ordered
  set.
\<close>

theorem missing_pool_params_passed_through:
  "process_pool_registration_cert None collection_type = PoolRegistration None \<and>
   ((era = BABBAGE \<and> (collection_type = DEFAULT \<or> collection_type = LIST)) \<or>
    (era = CONWAY \<and> collection_type = LIST) \<longrightarrow>
    (\<exists>tx'. export_to_era tx era collection_type = Inr tx' \<and>
       (\<forall>cs. certificates (transaction_body tx) = Some cs \<and>
              PoolRegistration None \<in> set (elems cs) \<longrightarrow>
          (\<exists>cs'. certificates (transaction_body tx') = Some (PyList cs') \<and>
              PoolRegistration None \<in> set cs'))))"
proof (intro conjI impI)
  show "process_pool_registration_cert None collection_type = PoolRegistration None"
    by (simp add: process_pool_registration_cert_def)
next
  assume combo: "(era = BABBAGE \<and> (collection_type = DEFAULT \<or> collection_type = LIST)) \<or>
    (era = CONWAY \<and> collection_type = LIST)"
  define tx' where "tx' = (case era of BABBAGE \<Rightarrow> export_babbage tx collection_type
                                      | CONWAY \<Rightarrow> export_conway tx collection_type)"
  have ex: "export_to_era tx era collection_type = Inr tx'"
    by (simp add: tx'_def export_to_era_Inr)
  have "\<exists>cs'. certificates (transaction_body tx') = Some (PyList cs') \<and>
              PoolRegistration None \<in> set cs'"
    if cs: "certificates (transaction_body tx) = Some cs"
      and m: "PoolRegistration None \<in> set (elems cs)" for cs
  proof -
    from m have ne: "elems cs \<noteq> []" by auto
    have "certificates (transaction_body tx') =
        Some (PyList (map (process_certificate collection_type) (elems cs)))"
      using combo certificates_listed [OF cs ne, of era collection_type]
      by (auto simp: tx'_def)
    moreover have "PoolRegistration None \<in>
        set (map (process_certificate collection_type) (elems cs))"
      using m process_unchanged(1) [of collection_type] by (metis image_eqI set_map)
    ultimately show ?thesis by blast
  qed
  with ex show "\<exists>tx'. export_to_era tx era collection_type = Inr tx' \<and>
       (\<forall>cs. certificates (transaction_body tx) = Some cs \<and>
              PoolRegistration None \<in> set (elems cs) \<longrightarrow>
          (\<exists>cs'. certificates (transaction_body tx') = Some (PyList cs') \<and>
              PoolRegistration None \<in> set cs'))"
    by blast
qed

theorem missing_pool_params_passed_through_witness:
  "((CONWAY = BABBAGE \<and> (LIST = DEFAULT \<or> LIST = LIST)) \<or> (CONWAY = CONWAY \<and> LIST = LIST)) \<and>
   certificates (transaction_body (tx_with [OtherCertificate 5, PoolRegistration None] None)) =
     Some (PyList [OtherCertificate 5, PoolRegistration None]) \<and>
   PoolRegistration None \<in>
     set (elems (PyList [OtherCertificate 5, PoolRegistration None :: nat Certificate])) \<and>
   (\<exists>tx' cs'.
      export_to_era (tx_with [OtherCertificate 5, PoolRegistration None] None) CONWAY LIST
        = Inr tx' \<and>
      certificates (transaction_body tx') = Some (PyList cs') \<and>
      PoolRegistration None \<in> set cs')"
proof -
  let ?T = "tx_with [OtherCertificate 5, PoolRegistration None] None"
  have c: "(CONWAY = BABBAGE \<and> (LIST = DEFAULT \<or> LIST = LIST)) \<or>
      (CONWAY = CONWAY \<and> LIST = LIST)"
    by simp
  have h: "certificates (transaction_body ?T) =
     Some (PyList [OtherCertificate 5, PoolRegistration None])"
    by (simp add: tx_with_def no_body_def)
  have m: "PoolRegistration None \<in>
      set (elems (PyList [OtherCertificate 5, PoolRegistration None :: nat Certificate]))"
    by simp
  from missing_pool_params_passed_through [of LIST CONWAY ?T] c
  obtain tx' where tx': "export_to_era ?T CONWAY LIST = Inr tx'"
    and p: "\<forall>cs. certificates (transaction_body ?T) = Some cs \<and>
              PoolRegistration None \<in> set (elems cs) \<longrightarrow>
          (\<exists>cs'. certificates (transaction_body tx') = Some (PyList cs') \<and>
              PoolRegistration None \<in> set cs')"
    by blast
  from p h m obtain cs' where "certificates (transaction_body tx') = Some (PyList cs')"
    "PoolRegistration None \<in> set cs'"
    by blast
  with tx' c h m show ?thesis by blast
qed


section \<open>Absent fields\<close>

text \<open>
  Claim C2 says that every field absent in the source is absent in the export. The
  Conway inputs are not: a transaction without inputs is exported under Conway with the
  default collection type with the empty built-in set as its inputs.
\<close>

theorem absent_inputs_conway_counterexample:
  "inputs (transaction_body bare_tx) = None \<and>
   export_to_era bare_tx CONWAY DEFAULT =
     Inr (bare_tx\<lparr>transaction_body := (transaction_body bare_tx)\<lparr>inputs := Some PySetEmpty\<rparr>\<rparr>)"
  by (simp add: export_to_era_def export_conway_def build_conway_transaction_body_def
      build_conway_witness_set_def bare_tx_def no_body_def no_witnesses_def if_truthy_def)

text \<open>
  Claim C2, amended. For every era and collection type, absent certificates, collateral,
  required signers, reference inputs and witness-set fields are absent in the export, and
  a pool registration whose owners are absent is among the exported certificates as it
  is. Absent inputs are absent under Babbage; under Conway they become the empty list
  under \<^verbatim>\<open>LIST\<close> and the empty built-in set otherwise.
\<close>

theorem absence_preserved_except_conway_inputs:
  "\<exists>tx'. export_to_era tx era collection_type = Inr tx' \<and>
     (certificates (transaction_body tx) = None \<longrightarrow>
        certificates (transaction_body tx') = None) \<and>
     list_all2 (\<lambda>s t. s = None \<longrightarrow> t = None)
       (body_collections (transaction_body tx)) (body_collections (transaction_body tx')) \<and>
     list_all2 (\<lambda>s t. s = None \<longrightarrow> t = None)
       (witness_collections (transaction_witness_set tx))
       (witness_collections (transaction_witness_set tx')) \<and>
     (inputs (transaction_body tx) = None \<longrightarrow>
        inputs (transaction_body tx') =
          (if era = BABBAGE then None
           else if collection_type = LIST then Some (PyList []) else Some PySetEmpty)) \<and>
     (\<forall>cs pp. certificates (transaction_body tx) = Some cs \<and>
        PoolRegistration (Some pp) \<in> set (elems cs) \<and> pool_owners pp = None \<longrightarrow>
        (\<exists>cs'. certificates (transaction_body tx') = Some cs' \<and>
           PoolRegistration (Some pp) \<in> set (elems cs')))"
proof (cases era)
  case BABBAGE
  have "\<And>cs pp. certificates (transaction_body tx) = Some cs \<Longrightarrow>
        PoolRegistration (Some pp) \<in> set (elems cs) \<Longrightarrow> pool_owners pp = None \<Longrightarrow>
        \<exists>cs'. certificates (transaction_body (export_babbage tx collection_type)) = Some cs' \<and>
           PoolRegistration (Some pp) \<in> set (elems cs')"
    by (rule certificate_kept(1)) (simp_all add: process_pool_registration_cert_def)
  with BABBAGE show ?thesis
    by (simp add: export_to_era_def export_babbage_body export_babbage_witness babbage_inputs
        babbage_body_collections babbage_certificates babbage_witness absent_fields_None
        if_truthy_falsy)
next
  case CONWAY
  have "\<And>cs pp. certificates (transaction_body tx) = Some cs \<Longrightarrow>
        PoolRegistration (Some pp) \<in> set (elems cs) \<Longrightarrow> pool_owners pp = None \<Longrightarrow>
        \<exists>cs'. certificates (transaction_body (export_conway tx collection_type)) = Some cs' \<and>
           PoolRegistration (Some pp) \<in> set (elems cs')"
    by (rule certificate_kept(2)) (simp_all add: process_pool_registration_cert_def)
  with CONWAY show ?thesis
    by (simp add: export_to_era_def export_conway_body export_conway_witness conway_inputs
        conway_body_collections conway_certificates conway_witness absent_fields_None
        if_truthy_falsy)
qed

theorem absence_preserved_except_conway_inputs_witness:
  "certificates (transaction_body (tx_with [PoolRegistration (Some (pool_121\<lparr>pool_owners := None\<rparr>))] None)) =
     Some (PyList [PoolRegistration (Some (pool_121\<lparr>pool_owners := None\<rparr>))]) \<and>
   inputs (transaction_body (tx_with [PoolRegistration (Some (pool_121\<lparr>pool_owners := None\<rparr>))] None)) = None \<and>
   pool_owners (pool_121\<lparr>pool_owners := None\<rparr>) = None \<and>
   (\<exists>tx'. export_to_era (tx_with [PoolRegistration (Some (pool_121\<lparr>pool_owners := None\<rparr>))] None)
             BABBAGE SET = Inr tx' \<and>
      inputs (transaction_body tx') = None \<and>
      (\<exists>cs'. certificates (transaction_body tx') = Some cs' \<and>
         PoolRegistration (Some (pool_121\<lparr>pool_owners := None\<rparr>)) \<in> set (elems cs')))"
proof -
  let ?c = "PoolRegistration (Some (pool_121\<lparr>pool_owners := None\<rparr>))"
  let ?T = "tx_with [?c] None"
  have h1: "certificates (transaction_body ?T) = Some (PyList [?c])"
    by (simp add: tx_with_def no_body_def)
  have h2: "inputs (transaction_body ?T) = None"
    by (simp add: tx_with_def no_body_def)
  have h3: "pool_owners (pool_121\<lparr>pool_owners := None\<rparr>) = None"
    by simp
  have h4: "?c \<in> set (elems (PyList [?c]))"
    by simp
  from absence_preserved_except_conway_inputs [of ?T BABBAGE SET]
  obtain tx' where tx': "export_to_era ?T BABBAGE SET = Inr tx'"
    and i: "inputs (transaction_body ?T) = None \<longrightarrow>
        inputs (transaction_body tx') =
          (if BABBAGE = BABBAGE then None
           else if SET = LIST then Some (PyList []) else Some PySetEmpty)"
    and p: "\<forall>cs pp. certificates (transaction_body ?T) = Some cs \<and>
        PoolRegistration (Some pp) \<in> set (elems cs) \<and> pool_owners pp = None \<longrightarrow>
        (\<exists>cs'. certificates (transaction_body tx') = Some cs' \<and>
           PoolRegistration (Some pp) \<in> set (elems cs'))"
    by (elim exE conjE) (rule that, assumption+)
  from i h2 have "inputs (transaction_body tx') = None" by simp
  moreover from p h1 h3 h4
  have "\<exists>cs'. certificates (transaction_body tx') = Some cs' \<and> ?c \<in> set (elems cs')"
    by blast
  ultimately show ?thesis using tx' h1 h2 h3 by blast
qed

section \<open>Empty fields\<close>

text \<open>
  Claim C9 says that a present but empty collection becomes absent, pool owners
  included, and that empty Conway inputs become an empty ordered set. A pool
  registration with an empty list of owners is exported as it is, its owners still the
  empty list; and the Conway inputs of a transaction without inputs become the empty
  built-in set, which is not an ordered set.
\<close>

theorem empty_pool_owners_counterexample:
  "present_empty (pool_owners pool_no_owners) \<and>
   inputs (transaction_body (tx_with [PoolRegistration (Some pool_no_owners)] None)) = None \<and>
   export_to_era (tx_with [PoolRegistration (Some pool_no_owners)] None) CONWAY DEFAULT =
     Inr ((tx_with [PoolRegistration (Some pool_no_owners)] None)
           \<lparr>transaction_body :=
              (transaction_body (tx_with [PoolRegistration (Some pool_no_owners)] None))
                \<lparr>inputs := Some PySetEmpty,
                 certificates :=
                   Some (NonEmptyOrderedSet [PoolRegistration (Some pool_no_owners)])\<rparr>\<rparr>) \<and>
   pool_owners pool_no_owners \<noteq> None \<and>
   Some PySetEmpty \<noteq> Some (OrderedSet ([] :: nat list))"
  by (simp add: export_to_era_def export_conway_def build_conway_transaction_body_def
      build_conway_witness_set_def tx_with_def no_body_def no_witnesses_def if_truthy_def
      process_certificates_def process_pool_registration_cert_def NonEmptyOrderedSet_new_def
      pool_no_owners_def pool_121_def)

text \<open>
  Claim C9, amended. For every era and collection type, present but empty certificates,
  collateral, required signers, reference inputs and witness-set fields are absent in the
  export. Empty or absent inputs are absent under Babbage; under Conway they become the
  empty list under \<^verbatim>\<open>LIST\<close> and the empty built-in set otherwise. A pool registration
  whose owners are present but empty is among the exported certificates as it is.
\<close>

theorem empty_collections_become_absent:
  "\<exists>tx'. export_to_era tx era collection_type = Inr tx' \<and>
     (present_empty (certificates (transaction_body tx)) \<longrightarrow>
        certificates (transaction_body tx') = None) \<and>
     list_all2 (\<lambda>s t. present_empty s \<longrightarrow> t = None)
       (body_collections (transaction_body tx)) (body_collections (transaction_body tx')) \<and>
     list_all2 (\<lambda>s t. present_empty s \<longrightarrow> t = None)
       (witness_collections (transaction_witness_set tx))
       (witness_collections (transaction_witness_set tx')) \<and>
     (\<not> truthy (inputs (transaction_body tx)) \<longrightarrow>
        inputs (transaction_body tx') =
          (if era = BABBAGE then None
           else if collection_type = LIST then Some (PyList []) else Some PySetEmpty)) \<and>
     (\<forall>cs pp. certificates (transaction_body tx) = Some cs \<and>
        PoolRegistration (Some pp) \<in> set (elems cs) \<and> present_empty (pool_owners pp) \<longrightarrow>
        (\<exists>cs'. certificates (transaction_body tx') = Some cs' \<and>
           PoolRegistration (Some pp) \<in> set (elems cs')))"
proof (cases era)
  case BABBAGE
  have "\<And>cs pp. certificates (transaction_body tx) = Some cs \<Longrightarrow>
        PoolRegistration (Some pp) \<in> set (elems cs) \<Longrightarrow> present_empty (pool_owners pp) \<Longrightarrow>
        \<exists>cs'. certificates (transaction_body (export_babbage tx collection_type)) = Some cs' \<and>
           PoolRegistration (Some pp) \<in> set (elems cs')"
    by (rule certificate_kept(1)) (simp_all add: process_unchanged(2) present_empty_falsy del: process_certificate.simps)
  with BABBAGE show ?thesis
    by (simp add: export_to_era_def export_babbage_body export_babbage_witness babbage_inputs
        babbage_body_collections babbage_certificates babbage_witness present_empty_fields_None
        if_truthy_falsy present_empty_if_truthy)
next
  case CONWAY
  have "\<And>cs pp. certificates (transaction_body tx) = Some cs \<Longrightarrow>
        PoolRegistration (Some pp) \<in> set (elems cs) \<Longrightarrow> present_empty (pool_owners pp) \<Longrightarrow>
        \<exists>cs'. certificates (transaction_body (export_conway tx collection_type)) = Some cs' \<and>
           PoolRegistration (Some pp) \<in> set (elems cs')"
    by (rule certificate_kept(2)) (simp_all add: process_unchanged(2) present_empty_falsy del: process_certificate.simps)
  with CONWAY show ?thesis
    by (simp add: export_to_era_def export_conway_body export_conway_witness conway_inputs
        conway_body_collections conway_certificates conway_witness present_empty_fields_None
        if_truthy_falsy present_empty_if_truthy)
qed

theorem empty_collections_become_absent_witness:
  "present_empty (certificates (transaction_body (tx_with [] (Some (PyList []))))) \<and>
   \<not> truthy (inputs (transaction_body (tx_with [] (Some (PyList []))))) \<and>
   witness_collections (transaction_witness_set (tx_with [] (Some (PyList [])))) =
     [Some (PyList []), None, None, None, None, None, None, None] \<and>
   (\<exists>tx'. export_to_era (tx_with [] (Some (PyList []))) CONWAY LIST = Inr tx' \<and>
      certificates (transaction_body tx') = None \<and>
      inputs (transaction_body tx') = Some (PyList []) \<and>
      hd (witness_collections (transaction_witness_set tx')) = None)"
proof -
  let ?T = "tx_with [] (Some (PyList [])) :: nat Transaction"
  have h1: "present_empty (certificates (transaction_body ?T))"
    by (simp add: tx_with_def no_body_def)
  have h2: "\<not> truthy (inputs (transaction_body ?T))"
    by (simp add: tx_with_def no_body_def)
  have h3: "witness_collections (transaction_witness_set ?T) =
     [Some (PyList []), None, None, None, None, None, None, None]"
    by (simp add: tx_with_def no_witnesses_def witness_collections_def)
  from empty_collections_become_absent [of ?T CONWAY LIST]
  obtain tx' where tx': "export_to_era ?T CONWAY LIST = Inr tx'"
    and c: "present_empty (certificates (transaction_body ?T)) \<longrightarrow>
        certificates (transaction_body tx') = None"
    and w: "list_all2 (\<lambda>s t. present_empty s \<longrightarrow> t = None)
       (witness_collections (transaction_witness_set ?T))
       (witness_collections (transaction_witness_set tx'))"
    and i: "\<not> truthy (inputs (transaction_body ?T)) \<longrightarrow>
        inputs (transaction_body tx') =
          (if CONWAY = BABBAGE then None
           else if LIST = LIST then Some (PyList []) else Some PySetEmpty)"
    by (elim exE conjE) (rule that, assumption+)
  from c h1 have "certificates (transaction_body tx') = None" by simp
  moreover from i h2 have "inputs (transaction_body tx') = Some (PyList [])" by simp
  moreover from w have "hd (witness_collections (transaction_witness_set tx')) = None"
    unfolding h3 by (auto simp: list_all2_Cons1)
  ultimately show ?thesis using tx' h1 h2 h3 by blast
qed


section \<open>The owners of a pool registration\<close>

text \<open>
  Claim C5 says that under \<^verbatim>\<open>SET\<close> every pool registration with pool parameters is
  rebuilt with its owners in an ordered set. A pool registration whose owners are the
  empty list is exported as it is: its owners are still the empty list, not an ordered
  set.
\<close>

theorem empty_owners_not_ordered_set_counterexample:
  "export_to_era (tx_with [PoolRegistration (Some pool_no_owners)] None) BABBAGE SET =
     Inr ((tx_with [PoolRegistration (Some pool_no_owners)] None)
           \<lparr>transaction_body :=
              (transaction_body (tx_with [PoolRegistration (Some pool_no_owners)] None))
                \<lparr>certificates :=
                   Some (NonEmptyOrderedSet [PoolRegistration (Some pool_no_owners)])\<rparr>\<rparr>) \<and>
   pool_owners pool_no_owners = Some (PyList []) \<and>
   \<not> is_OrderedSet (pool_owners pool_no_owners)"
  by (simp add: export_to_era_def export_babbage_def build_babbage_transaction_body_def
      build_babbage_witness_set_def tx_with_def no_body_def no_witnesses_def if_truthy_def
      process_certificates_def process_pool_registration_cert_def NonEmptyOrderedSet_new_def
      pool_no_owners_def pool_121_def)

text \<open>
  Claim C5, amended. Under \<^verbatim>\<open>SET\<close>, for every era: the exported certificates are a
  non-empty ordered set of the processed source certificates, without repetitions. A pool
  registration with pool parameters and at least one owner is rebuilt: its owners are an
  ordered set without repetitions of exactly the source owners, and operator, VRF key
  hash, pledge, cost, margin, reward account, relays and pool metadata are those of the
  source. A pool registration whose owners are empty or absent, and every certificate
  that is not a pool registration, is among the exported certificates as it is.
\<close>

theorem pool_owners_deduplicated:
  "\<exists>tx'. export_to_era tx era SET = Inr tx' \<and>
     (\<forall>cs. certificates (transaction_body tx) = Some cs \<and> elems cs \<noteq> [] \<longrightarrow>
        (\<exists>ys. certificates (transaction_body tx') = Some (NonEmptyOrderedSet ys) \<and>
           distinct ys \<and> set ys = process_certificate SET ` set (elems cs))) \<and>
     (\<forall>cs pp. certificates (transaction_body tx) = Some cs \<and>
        PoolRegistration (Some pp) \<in> set (elems cs) \<and> truthy (pool_owners pp) \<longrightarrow>
        (\<exists>cs' pp' zs. certificates (transaction_body tx') = Some cs' \<and>
           PoolRegistration (Some pp') \<in> set (elems cs') \<and>
           pool_owners pp' = Some (OrderedSet zs) \<and>
           distinct zs \<and> set zs = set (items (pool_owners pp)) \<and>
           operator pp' = operator pp \<and> vrf_keyhash pp' = vrf_keyhash pp \<and>
           pledge pp' = pledge pp \<and> cost pp' = cost pp \<and> margin pp' = margin pp \<and>
           reward_account pp' = reward_account pp \<and> relays pp' = relays pp \<and>
           pool_metadata pp' = pool_metadata pp)) \<and>
     (\<forall>cs pp. certificates (transaction_body tx) = Some cs \<and>
        PoolRegistration (Some pp) \<in> set (elems cs) \<and> \<not> truthy (pool_owners pp) \<longrightarrow>
        (\<exists>cs'. certificates (transaction_body tx') = Some cs' \<and>
           PoolRegistration (Some pp) \<in> set (elems cs'))) \<and>
     (\<forall>cs x. certificates (transaction_body tx) = Some cs \<and>
        OtherCertificate x \<in> set (elems cs) \<longrightarrow>
        (\<exists>cs'. certificates (transaction_body tx') = Some cs' \<and>
           OtherCertificate x \<in> set (elems cs')))"
proof -
  define tx' where "tx' = (case era of BABBAGE \<Rightarrow> export_babbage tx SET
                                      | CONWAY \<Rightarrow> export_conway tx SET)"
  have ex: "export_to_era tx era SET = Inr tx'"
    by (simp add: tx'_def export_to_era_Inr)
  have certs: "certificates (transaction_body tx') =
      Some (NonEmptyOrderedSet (OrderedSet_extend [] (map (process_certificate SET) (elems cs))))"
    if "certificates (transaction_body tx) = Some cs" "elems cs \<noteq> []" for cs
    using certificates_SET [OF that] by (cases era) (simp_all add: tx'_def)
  have kept: "\<exists>cs'. certificates (transaction_body tx') = Some cs' \<and> c' \<in> set (elems cs')"
    if "certificates (transaction_body tx) = Some cs" "c \<in> set (elems cs)"
       "process_certificate SET c = c'" for cs c c'
  proof -
    from that(2) have "elems cs \<noteq> []" by auto
    from certs [OF that(1) this] that(2,3) show ?thesis
      by (auto simp: set_extend)
  qed
  have a: "\<exists>ys. certificates (transaction_body tx') = Some (NonEmptyOrderedSet ys) \<and>
           distinct ys \<and> set ys = process_certificate SET ` set (elems cs)"
    if "certificates (transaction_body tx) = Some cs" "elems cs \<noteq> []" for cs
    using certs [OF that] by (simp add: set_extend distinct_extend)
  have b: "\<exists>cs' pp' zs. certificates (transaction_body tx') = Some cs' \<and>
           PoolRegistration (Some pp') \<in> set (elems cs') \<and>
           pool_owners pp' = Some (OrderedSet zs) \<and>
           distinct zs \<and> set zs = set (items (pool_owners pp)) \<and>
           operator pp' = operator pp \<and> vrf_keyhash pp' = vrf_keyhash pp \<and>
           pledge pp' = pledge pp \<and> cost pp' = cost pp \<and> margin pp' = margin pp \<and>
           reward_account pp' = reward_account pp \<and> relays pp' = relays pp \<and>
           pool_metadata pp' = pool_metadata pp"
    if "certificates (transaction_body tx) = Some cs"
       "PoolRegistration (Some pp) \<in> set (elems cs)" "truthy (pool_owners pp)" for cs pp
  proof -
    let ?zs = "OrderedSet_extend [] (items (pool_owners pp))"
    let ?pp' = "pp\<lparr>pool_owners := Some (OrderedSet ?zs)\<rparr>"
    from process_truthy [OF that(3), of SET]
    have "process_certificate SET (PoolRegistration (Some pp)) = PoolRegistration (Some ?pp')"
      by simp
    from kept [OF that(1,2) this]
    obtain cs' where "certificates (transaction_body tx') = Some cs'"
      "PoolRegistration (Some ?pp') \<in> set (elems cs')" by blast
    moreover have "distinct ?zs" "set ?zs = set (items (pool_owners pp))"
      by (simp_all add: distinct_extend set_extend)
    ultimately show ?thesis
      by (intro exI [of _ cs'] exI [of _ ?pp'] exI [of _ ?zs]) simp
  qed
  have c: "\<exists>cs'. certificates (transaction_body tx') = Some cs' \<and>
           PoolRegistration (Some pp) \<in> set (elems cs')"
    if "certificates (transaction_body tx) = Some cs"
       "PoolRegistration (Some pp) \<in> set (elems cs)" "\<not> truthy (pool_owners pp)" for cs pp
    using kept [OF that(1,2)] process_unchanged(2) [OF that(3)] by blast
  have d: "\<exists>cs'. certificates (transaction_body tx') = Some cs' \<and>
           OtherCertificate x \<in> set (elems cs')"
    if "certificates (transaction_body tx) = Some cs" "OtherCertificate x \<in> set (elems cs)"
    for cs x
    using kept [OF that(1,2)] by simp
  from ex a b c d show ?thesis by blast
qed

theorem pool_owners_deduplicated_witness:
  "certificates (transaction_body (tx_with [PoolRegistration (Some pool_121), OtherCertificate 5] None)) =
     Some (PyList [PoolRegistration (Some pool_121), OtherCertificate 5]) \<and>
   truthy (pool_owners pool_121) \<and>
   items (pool_owners pool_121) = [1, 2, 1] \<and>
   (\<exists>tx' cs' pp' zs.
      export_to_era (tx_with [PoolRegistration (Some pool_121), OtherCertificate 5] None) CONWAY SET
        = Inr tx' \<and>
      certificates (transaction_body tx') = Some cs' \<and>
      PoolRegistration (Some pp') \<in> set (elems cs') \<and>
      OtherCertificate 5 \<in> set (elems cs') \<and>
      pool_owners pp' = Some (OrderedSet zs) \<and> distinct zs \<and> set zs = {1, 2} \<and>
      operator pp' = 10 \<and> pledge pp' = 500 \<and> pool_metadata pp' = Some 14)"
proof -
  let ?cs = "PyList [PoolRegistration (Some pool_121), OtherCertificate 5]"
  let ?T = "tx_with [PoolRegistration (Some pool_121), OtherCertificate 5] None"
  have h1: "certificates (transaction_body ?T) = Some ?cs"
    by (simp add: tx_with_def no_body_def)
  have h2: "truthy (pool_owners pool_121)" and h3: "items (pool_owners pool_121) = [1, 2, 1]"
    by (simp_all add: pool_121_def)
  have h4: "PoolRegistration (Some pool_121) \<in> set (elems ?cs)"
    and h5: "OtherCertificate 5 \<in> set (elems ?cs)"
    by simp_all
  have f: "operator pool_121 = 10" "pledge pool_121 = 500" "pool_metadata pool_121 = Some 14"
    by (simp_all add: pool_121_def)
  from pool_owners_deduplicated [of ?T CONWAY]
  obtain tx' where tx': "export_to_era ?T CONWAY SET = Inr tx'"
    and b: "\<forall>cs pp. certificates (transaction_body ?T) = Some cs \<and>
        PoolRegistration (Some pp) \<in> set (elems cs) \<and> truthy (pool_owners pp) \<longrightarrow>
        (\<exists>cs' pp' zs. certificates (transaction_body tx') = Some cs' \<and>
           PoolRegistration (Some pp') \<in> set (elems cs') \<and>
           pool_owners pp' = Some (OrderedSet zs) \<and>
           distinct zs \<and> set zs = set (items (pool_owners pp)) \<and>
           operator pp' = operator pp \<and> vrf_keyhash pp' = vrf_keyhash pp \<and>
           pledge pp' = pledge pp \<and> cost pp' = cost pp \<and> margin pp' = margin pp \<and>
           reward_account pp' = reward_account pp \<and> relays pp' = relays pp \<and>
           pool_metadata pp' = pool_metadata pp)"
    and d: "\<forall>cs x. certificates (transaction_body ?T) = Some cs \<and>
        OtherCertificate x \<in> set (elems cs) \<longrightarrow>
        (\<exists>cs'. certificates (transaction_body tx') = Some cs' \<and>
           OtherCertificate x \<in> set (elems cs'))"
    by (elim exE conjE) (rule that, assumption+)
  from b h1 h4 h2 obtain cs' pp' zs where r:
    "certificates (transaction_body tx') = Some cs'"
    "PoolRegistration (Some pp') \<in> set (elems cs')"
    "pool_owners pp' = Some (OrderedSet zs)" "distinct zs"
    "set zs = set (items (pool_owners pool_121))"
    "operator pp' = operator pool_121" "pledge pp' = pledge pool_121"
    "pool_metadata pp' = pool_metadata pool_121"
    by blast
  from d h1 h5 r(1) have o: "OtherCertificate 5 \<in> set (elems cs')"
    by fastforce
  from r(5) have "set zs = {1, 2}" by (auto simp: h3)
  with tx' r o f have "\<exists>tx' cs' pp' zs.
      export_to_era ?T CONWAY SET = Inr tx' \<and>
      certificates (transaction_body tx') = Some cs' \<and>
      PoolRegistration (Some pp') \<in> set (elems cs') \<and>
      OtherCertificate 5 \<in> set (elems cs') \<and>
      pool_owners pp' = Some (OrderedSet zs) \<and> distinct zs \<and> set zs = {1, 2} \<and>
      operator pp' = 10 \<and> pledge pp' = 500 \<and> pool_metadata pp' = Some 14"
    by (intro exI [of _ tx'] exI [of _ cs'] exI [of _ pp'] exI [of _ zs]) simp
  with h1 h2 h3 show ?thesis by blast
qed


section \<open>The requested representation\<close>

text \<open>
  Under \<^verbatim>\<open>LIST\<close> and under \<^verbatim>\<open>SET\<close>, for every era, every collection field other than
  the outputs that yields at least one item is exported in the requested representation
  of the items it yields when it is iterated: the inputs, the collateral, required
  signers and reference inputs, the eight witness-set fields, the certificates (whose
  items are the processed certificates), and the owners of every pool registration among
  them. Under \<^verbatim>\<open>LIST\<close> the export is the plain list of these items in their order; under
  \<^verbatim>\<open>SET\<close> it is a set whose items are pairwise different and exactly these items. A list
  and a set yield their elements; a map yields its keys only.
\<close>

lemma requested_representation:
  assumes "collection_type = LIST \<or> collection_type = SET"
  shows "\<exists>tx'. export_to_era tx era collection_type = Inr tx' \<and>
     (truthy (inputs (transaction_body tx)) \<longrightarrow>
        requested_repr collection_type (items (inputs (transaction_body tx)))
          (inputs (transaction_body tx'))) \<and>
     list_all2 (\<lambda>s t. truthy s \<longrightarrow> requested_repr collection_type (items s) t)
       (body_collections (transaction_body tx)) (body_collections (transaction_body tx')) \<and>
     list_all2 (\<lambda>s t. truthy s \<longrightarrow> requested_repr collection_type (items s) t)
       (witness_collections (transaction_witness_set tx))
       (witness_collections (transaction_witness_set tx')) \<and>
     (truthy (certificates (transaction_body tx)) \<longrightarrow>
        requested_repr collection_type
          (map (process_certificate collection_type) (items (certificates (transaction_body tx))))
          (certificates (transaction_body tx'))) \<and>
     (\<forall>cs pp. certificates (transaction_body tx) = Some cs \<and>
        PoolRegistration (Some pp) \<in> set (elems cs) \<and> truthy (pool_owners pp) \<longrightarrow>
        (\<exists>cs' pp'. certificates (transaction_body tx') = Some cs' \<and>
           PoolRegistration (Some pp') \<in> set (elems cs') \<and>
           requested_repr collection_type (items (pool_owners pp)) (pool_owners pp')))"
proof (cases era)
  case BABBAGE
  have "\<exists>cs' pp'. certificates (transaction_body (export_babbage tx collection_type)) = Some cs' \<and>
           PoolRegistration (Some pp') \<in> set (elems cs') \<and>
           requested_repr collection_type (items (pool_owners pp)) (pool_owners pp')"
    if "certificates (transaction_body tx) = Some cs"
       "PoolRegistration (Some pp) \<in> set (elems cs)" "truthy (pool_owners pp)" for cs pp
    using certificate_processed(1) [OF that(1,2), of collection_type]
      repr_pool_owners [OF assms that(3)] by metis
  with BABBAGE show ?thesis
    by (simp add: export_to_era_def export_babbage_body export_babbage_witness babbage_inputs
        babbage_body_collections babbage_certificates babbage_witness
        repr_field [OF assms] repr_fields [OF assms] repr_certificates [OF assms])
next
  case CONWAY
  have "\<exists>cs' pp'. certificates (transaction_body (export_conway tx collection_type)) = Some cs' \<and>
           PoolRegistration (Some pp') \<in> set (elems cs') \<and>
           requested_repr collection_type (items (pool_owners pp)) (pool_owners pp')"
    if "certificates (transaction_body tx) = Some cs"
       "PoolRegistration (Some pp) \<in> set (elems cs)" "truthy (pool_owners pp)" for cs pp
    using certificate_processed(2) [OF that(1,2), of collection_type]
      repr_pool_owners [OF assms that(3)] by metis
  with CONWAY show ?thesis
    by (simp add: export_to_era_def export_conway_body export_conway_witness conway_inputs
        conway_body_collections conway_certificates conway_witness
        repr_field [OF assms] repr_fields [OF assms] repr_certificates [OF assms])
qed

lemma requested_representation_LIST_instance:
  "(LIST = LIST \<or> LIST = SET) \<and>
   witness_collections (transaction_witness_set
       (tx_with [PoolRegistration (Some pool_121)] (Some (OrderedSet [3])))) =
     [Some (OrderedSet [3]), None, None, None, None, None, None, None] \<and>
   truthy (Some (OrderedSet [3::nat])) \<and>
   certificates (transaction_body
       (tx_with [PoolRegistration (Some pool_121)] (Some (OrderedSet [3])))) =
     Some (PyList [PoolRegistration (Some pool_121)]) \<and>
   truthy (pool_owners pool_121) \<and>
   (\<exists>tx' cs' pp'.
      export_to_era (tx_with [PoolRegistration (Some pool_121)] (Some (OrderedSet [3])))
        BABBAGE LIST = Inr tx' \<and>
      hd (witness_collections (transaction_witness_set tx')) = Some (PyList [3]) \<and>
      certificates (transaction_body tx') = Some cs' \<and>
      PoolRegistration (Some pp') \<in> set (elems cs') \<and>
      pool_owners pp' = Some (PyList [1, 2, 1]))"
proof -
  let ?cs = "PyList [PoolRegistration (Some pool_121)]"
  let ?T = "tx_with [PoolRegistration (Some pool_121)] (Some (OrderedSet [3]))"
  have h0: "LIST = LIST \<or> LIST = SET"
    by simp
  have h1: "witness_collections (transaction_witness_set ?T) =
     [Some (OrderedSet [3]), None, None, None, None, None, None, None]"
    by (simp add: tx_with_def no_witnesses_def witness_collections_def)
  have h2: "truthy (Some (OrderedSet [3::nat]))"
    by simp
  have h3: "certificates (transaction_body ?T) = Some ?cs"
    by (simp add: tx_with_def no_body_def)
  have h4: "truthy (pool_owners pool_121)" and h5: "items (pool_owners pool_121) = [1, 2, 1]"
    by (simp_all add: pool_121_def)
  have h6: "PoolRegistration (Some pool_121) \<in> set (elems ?cs)"
    by simp
  from requested_representation [OF h0, of ?T BABBAGE]
  obtain tx' where tx': "export_to_era ?T BABBAGE LIST = Inr tx'"
    and w: "list_all2 (\<lambda>s t. truthy s \<longrightarrow> requested_repr LIST (items s) t)
       (witness_collections (transaction_witness_set ?T))
       (witness_collections (transaction_witness_set tx'))"
    and p: "\<forall>cs pp. certificates (transaction_body ?T) = Some cs \<and>
        PoolRegistration (Some pp) \<in> set (elems cs) \<and> truthy (pool_owners pp) \<longrightarrow>
        (\<exists>cs' pp'. certificates (transaction_body tx') = Some cs' \<and>
           PoolRegistration (Some pp') \<in> set (elems cs') \<and>
           requested_repr LIST (items (pool_owners pp)) (pool_owners pp'))"
    by (elim exE conjE) (rule that, assumption+)
  from w have v: "hd (witness_collections (transaction_witness_set tx')) = Some (PyList [3])"
    unfolding h1 by (auto simp: list_all2_Cons1)
  from p h3 h6 h4 obtain cs' pp' where r:
    "certificates (transaction_body tx') = Some cs'"
    "PoolRegistration (Some pp') \<in> set (elems cs')"
    "requested_repr LIST (items (pool_owners pool_121)) (pool_owners pp')"
    by blast
  from r(3) have "pool_owners pp' = Some (PyList [1, 2, 1])"
    by (simp add: h5)
  with tx' v r(1,2) have "\<exists>tx' cs' pp'.
      export_to_era ?T BABBAGE LIST = Inr tx' \<and>
      hd (witness_collections (transaction_witness_set tx')) = Some (PyList [3]) \<and>
      certificates (transaction_body tx') = Some cs' \<and>
      PoolRegistration (Some pp') \<in> set (elems cs') \<and>
      pool_owners pp' = Some (PyList [1, 2, 1])"
    by blast
  with h0 h1 h2 h3 h4 show ?thesis by blast
qed

lemma set_of_items_cases:
  assumes "set_of_items xs t"
  obtains ys where "t = Some (OrderedSet ys) \<or> t = Some (NonEmptyOrderedSet ys)"
    and "distinct ys" and "set ys = set xs"
  using assms by (cases "(xs, t)" rule: set_of_items.cases) auto

lemma requested_representation_SET_instance:
  "\<exists>tx' ys cs' pp' zs.
      export_to_era (tx_with [PoolRegistration (Some pool_121)] (Some (PyList [3, 3])))
        CONWAY SET = Inr tx' \<and>
      (hd (witness_collections (transaction_witness_set tx')) = Some (OrderedSet ys) \<or>
       hd (witness_collections (transaction_witness_set tx')) = Some (NonEmptyOrderedSet ys)) \<and>
      distinct ys \<and> set ys = {3} \<and>
      certificates (transaction_body tx') = Some cs' \<and>
      PoolRegistration (Some pp') \<in> set (elems cs') \<and>
      (pool_owners pp' = Some (OrderedSet zs) \<or> pool_owners pp' = Some (NonEmptyOrderedSet zs)) \<and>
      distinct zs \<and> set zs = {1, 2}"
proof -
  let ?cs = "PyList [PoolRegistration (Some pool_121)]"
  let ?T = "tx_with [PoolRegistration (Some pool_121)] (Some (PyList [3, 3]))"
  have h0: "SET = LIST \<or> SET = SET"
    by simp
  have h1: "witness_collections (transaction_witness_set ?T) =
     [Some (PyList [3, 3]), None, None, None, None, None, None, None]"
    by (simp add: tx_with_def no_witnesses_def witness_collections_def)
  have h3: "certificates (transaction_body ?T) = Some ?cs"
    by (simp add: tx_with_def no_body_def)
  have h4: "truthy (pool_owners pool_121)" and h5: "items (pool_owners pool_121) = [1, 2, 1]"
    by (simp_all add: pool_121_def)
  have h6: "PoolRegistration (Some pool_121) \<in> set (elems ?cs)"
    by simp
  from requested_representation [OF h0, of ?T CONWAY]
  obtain tx' where tx': "export_to_era ?T CONWAY SET = Inr tx'"
    and w: "list_all2 (\<lambda>s t. truthy s \<longrightarrow> requested_repr SET (items s) t)
       (witness_collections (transaction_witness_set ?T))
       (witness_collections (transaction_witness_set tx'))"
    and p: "\<forall>cs pp. certificates (transaction_body ?T) = Some cs \<and>
        PoolRegistration (Some pp) \<in> set (elems cs) \<and> truthy (pool_owners pp) \<longrightarrow>
        (\<exists>cs' pp'. certificates (transaction_body tx') = Some cs' \<and>
           PoolRegistration (Some pp') \<in> set (elems cs') \<and>
           requested_repr SET (items (pool_owners pp)) (pool_owners pp'))"
    by (elim exE conjE) (rule that, assumption+)
  from w have "set_of_items [3, 3] (hd (witness_collections (transaction_witness_set tx')))"
    unfolding h1 by (auto simp: list_all2_Cons1)
  then obtain ys where ys:
    "hd (witness_collections (transaction_witness_set tx')) = Some (OrderedSet ys) \<or>
     hd (witness_collections (transaction_witness_set tx')) = Some (NonEmptyOrderedSet ys)"
    "distinct ys" "set ys = {3}"
    by (rule set_of_items_cases) auto
  from p h3 h6 h4 obtain cs' pp' where r:
    "certificates (transaction_body tx') = Some cs'"
    "PoolRegistration (Some pp') \<in> set (elems cs')"
    "requested_repr SET (items (pool_owners pool_121)) (pool_owners pp')"
    by blast
  from r(3) have "set_of_items [1, 2, 1] (pool_owners pp')"
    by (simp add: h5)
  then obtain zs where zs:
    "pool_owners pp' = Some (OrderedSet zs) \<or> pool_owners pp' = Some (NonEmptyOrderedSet zs)"
    "distinct zs" "set zs = {1, 2}"
    by (rule set_of_items_cases) auto
  from tx' ys r(1,2) zs show ?thesis
    by (intro exI [of _ tx'] exI [of _ ys] exI [of _ cs'] exI [of _ pp'] exI [of _ zs]) simp
qed

text \<open>
  Claim C6 says that under \<^verbatim>\<open>LIST\<close> and \<^verbatim>\<open>SET\<close> every non-empty collection field is
  materialized in the requested representation. A redeemer field that the codec decoded
  into a map is not: the builders iterate the dictionary, so the export holds the
  redeemer keys only, in a list under \<^verbatim>\<open>LIST\<close> and in a non-empty ordered set under
  \<^verbatim>\<open>SET\<close>, and the redeemer values are lost.
\<close>

theorem redeemer_map_exported_as_keys:
  "export_to_era (tx_with_redeemer (Some (RedeemerMap [(1, 100), (2, 200)]))) BABBAGE LIST =
     Inr (tx_with_redeemer (Some (PyList [1, 2]))) \<and>
   export_to_era (tx_with_redeemer (Some (RedeemerMap [(1, 100), (2, 200)]))) CONWAY SET =
     Inr ((tx_with_redeemer (Some (NonEmptyOrderedSet [1, 2])))
           \<lparr>transaction_body :=
              (transaction_body (tx_with_redeemer None))\<lparr>inputs := Some PySetEmpty\<rparr>\<rparr>)"
  by (simp add: export_to_era_def export_babbage_def export_conway_def
      build_babbage_transaction_body_def build_conway_transaction_body_def
      build_babbage_witness_set_def build_conway_witness_set_def tx_with_redeemer_def
      no_body_def no_witnesses_def if_truthy_def py_list_def NonEmptyOrderedSet_new_def)


section \<open>Idempotence\<close>

text \<open>
  Claim C7. For every transaction and era, the export with the default collection type
  succeeds, and exporting its result again with the same era and the default collection
  type succeeds with the same transaction.
\<close>

theorem default_export_idempotent:
  "\<exists>tx'. export_to_era tx era DEFAULT = Inr tx' \<and> export_to_era tx' era DEFAULT = Inr tx'"
  by (cases era) (simp_all add: export_to_era_def export_babbage_idem export_conway_idem)


section \<open>The saved file\<close>

text \<open>
  Claim C8 says that the saved type is \<^verbatim>\<open>Signed\<close> as soon as a witness-set field is
  present. A transaction whose key witnesses are present but empty is saved as
  \<^verbatim>\<open>Unwitnessed\<close>.
\<close>

theorem empty_witness_field_unwitnessed_counterexample:
  "vkey_witnesses (transaction_witness_set (tx_with [] (Some (PyList [])))) = Some (PyList []) \<and>
   save_export_to_file (\<lambda>t. Inr ''84a0'') (window_with (tx_with [] (Some (PyList []))) ''Babbage Era'')
       ''out.json'' =
     DumpJsonFile ''out.json''
       [(''type'', ''Unwitnessed Tx BabbageEra''),
        (''description'', ''Generated by Cardano Transaction Sanitizer''),
        (''cborHex'', ''84a0'')]"
  by (simp add: save_export_to_file_def window_with_def tx_with_def no_witnesses_def is_empty_def)

text \<open>
  Claim C8, amended. When there is an export to save, a file was chosen, a transaction is
  loaded and the codec encodes it, the saved dictionary has exactly the three items
  \<^verbatim>\<open>type\<close>, \<^verbatim>\<open>description\<close> and \<^verbatim>\<open>cborHex\<close>: the type is \<^verbatim>\<open>Unwitnessed Tx\<close> when every
  witness-set field of the loaded transaction is absent or empty and \<^verbatim>\<open>Signed Tx\<close>
  otherwise, followed by the selected era and \<^verbatim>\<open>Era\<close>; the description is constant; and
  \<^verbatim>\<open>cborHex\<close> is the codec's hex encoding of the loaded transaction itself, not of an
  export.
\<close>

theorem saved_file_contents:
  assumes "export_view self \<noteq> []" and "file_path \<noteq> []"
    and "window_transaction_data self = Some td"
    and "to_cbor_hex (transaction td) = Inr h"
  shows "save_export_to_file to_cbor_hex self file_path =
     DumpJsonFile file_path
       [(''type'',
           (if list_all (\<lambda>f. \<not> truthy f)
                 (witness_collections (transaction_witness_set (transaction td)))
            then ''Unwitnessed'' else ''Signed'')
           @ '' Tx '' @ (if era_combo self = ''Babbage Era'' then ''Babbage'' else ''Conway'')
           @ ''Era''),
        (''description'', ''Generated by Cardano Transaction Sanitizer''),
        (''cborHex'', h)]"
  using assms by (simp add: save_export_to_file_def is_empty_iff Let_def)

theorem saved_file_contents_witness:
  "export_view (window_with (tx_with [] (Some (PyList [3]))) ''Conway Era'') \<noteq> [] \<and>
   ''out.json'' \<noteq> [] \<and>
   window_transaction_data (window_with (tx_with [] (Some (PyList [3]))) ''Conway Era'') =
     Some \<lparr> cbor_hex = ''84a0'', transaction = tx_with [] (Some (PyList [3])) \<rparr> \<and>
   save_export_to_file (\<lambda>t. Inr ''84a0'')
       (window_with (tx_with [] (Some (PyList [3]))) ''Conway Era'') ''out.json'' =
     DumpJsonFile ''out.json''
       [(''type'', ''Signed Tx ConwayEra''),
        (''description'', ''Generated by Cardano Transaction Sanitizer''),
        (''cborHex'', ''84a0'')]"
proof -
  let ?W = "window_with (tx_with [] (Some (PyList [3]))) ''Conway Era''"
  let ?td = "\<lparr> cbor_hex = ''84a0'', transaction = tx_with [] (Some (PyList [3])) \<rparr>"
  have h1: "export_view ?W \<noteq> []" and h2: "''out.json'' \<noteq> []"
    and h3: "window_transaction_data ?W = Some ?td"
    by (simp_all add: window_with_def)
  have h4: "(\<lambda>t. Inr ''84a0'' :: py_error + string) (transaction ?td) = Inr ''84a0''"
    by simp
  from saved_file_contents [of ?W "''out.json''" ?td "\<lambda>t. Inr ''84a0''" "''84a0''", OF h1 h2 h3 h4]
  have "save_export_to_file (\<lambda>t. Inr ''84a0'') ?W ''out.json'' =
     DumpJsonFile ''out.json''
       [(''type'', ''Signed Tx ConwayEra''),
        (''description'', ''Generated by Cardano Transaction Sanitizer''),
        (''cborHex'', ''84a0'')]"
    by (simp add: window_with_def tx_with_def no_witnesses_def witness_collections_def)
  with h1 h2 h3 show ?thesis by (intro conjI)
qed

section \<open>Loading a file\<close>

text \<open>
  Claim C10. \<^verbatim>\<open>parse_from_json\<close> either succeeds and stores the parsed data in the parser,
  or fails with a \<^verbatim>\<open>ValueError\<close> whose message begins with
  \<^verbatim>\<open>Failed to parse JSON file:\<close> and leaves the parser as it was. It fails in this way when
  the file does not exist, when it is not valid JSON, when the object has no \<^verbatim>\<open>cborHex\<close>
  item and when the hex or CBOR decoding fails; and when everything succeeds, the stored
  data is the decoded transaction with its hex string.
\<close>

theorem parse_from_json_all_or_nothing:
  "((\<exists>td. parse_from_json w self p = (Inr td, self\<lparr>transaction_data := Some td\<rparr>)) \<or>
    (\<exists>msg. parse_from_json w self p =
        (Inl (ValueError (''Failed to parse JSON file: '' @ msg)), self)))
   \<and> ((\<not> path_exists w p \<or> \<not> path_is_file w p)
        \<or> (\<exists>e. open_json_load w p = Inl e)
        \<or> (\<exists>kvs. open_json_load w p = Inr (JObject kvs) \<and>
              ''cborHex'' \<notin> set (map fst kvs))
        \<or> (\<exists>kvs h e. open_json_load w p = Inr (JObject kvs) \<and>
              map_of kvs ''cborHex'' = Some (JString h) \<and>
              (bytes_fromhex w h = Inl e \<or>
               (\<exists>b. bytes_fromhex w h = Inr b \<and> Transaction_from_cbor w b = Inl e)))
       \<longrightarrow> (\<exists>msg. parse_from_json w self p =
               (Inl (ValueError (''Failed to parse JSON file: '' @ msg)), self)))
   \<and> (\<forall>kvs h b t. path_exists w p \<and> path_is_file w p \<and>
          open_json_load w p = Inr (JObject kvs) \<and>
          map_of kvs ''cborHex'' = Some (JString h) \<and>
          bytes_fromhex w h = Inr b \<and> Transaction_from_cbor w b = Inr t
       \<longrightarrow> parse_from_json w self p =
             (Inr \<lparr> cbor_hex = h, transaction = t \<rparr>,
              self\<lparr>transaction_data := Some \<lparr> cbor_hex = h, transaction = t \<rparr>\<rparr>))"
proof (intro conjI)
  show "(\<exists>td. parse_from_json w self p = (Inr td, self\<lparr>transaction_data := Some td\<rparr>)) \<or>
    (\<exists>msg. parse_from_json w self p =
        (Inl (ValueError (''Failed to parse JSON file: '' @ msg)), self))"
    by (cases "parse_from_json_try w p") (simp_all add: parse_from_json_cases)
next
  have fail: "\<exists>msg. parse_from_json w self p =
               (Inl (ValueError (''Failed to parse JSON file: '' @ msg)), self)"
    if "\<exists>e. parse_from_json_try w p = Inl e"
    using that by (auto simp: parse_from_json_cases)
  show "(\<not> path_exists w p \<or> \<not> path_is_file w p)
        \<or> (\<exists>e. open_json_load w p = Inl e)
        \<or> (\<exists>kvs. open_json_load w p = Inr (JObject kvs) \<and>
              ''cborHex'' \<notin> set (map fst kvs))
        \<or> (\<exists>kvs h e. open_json_load w p = Inr (JObject kvs) \<and>
              map_of kvs ''cborHex'' = Some (JString h) \<and>
              (bytes_fromhex w h = Inl e \<or>
               (\<exists>b. bytes_fromhex w h = Inr b \<and> Transaction_from_cbor w b = Inl e)))
       \<longrightarrow> (\<exists>msg. parse_from_json w self p =
               (Inl (ValueError (''Failed to parse JSON file: '' @ msg)), self))"
    by (intro impI fail) (metis try_file_missing try_invalid_json try_missing_field try_decode_failure)
next
  show "\<forall>kvs h b t. path_exists w p \<and> path_is_file w p \<and>
          open_json_load w p = Inr (JObject kvs) \<and>
          map_of kvs ''cborHex'' = Some (JString h) \<and>
          bytes_fromhex w h = Inr b \<and> Transaction_from_cbor w b = Inr t
       \<longrightarrow> parse_from_json w self p =
             (Inr \<lparr> cbor_hex = h, transaction = t \<rparr>,
              self\<lparr>transaction_data := Some \<lparr> cbor_hex = h, transaction = t \<rparr>\<rparr>)"
    by (auto simp: parse_from_json_cases try_success)
qed

theorem parse_from_json_all_or_nothing_witness:
  "\<not> path_exists (world_with (Inr (JObject [])) (Inr []) (Inr bare_tx)) ''nope.json'' \<and>
   (\<exists>msg. parse_from_json (world_with (Inr (JObject [])) (Inr []) (Inr bare_tx))
            loaded_parser ''nope.json'' =
      (Inl (ValueError (''Failed to parse JSON file: '' @ msg)), loaded_parser)) \<and>
   open_json_load (world_with (Inr (JObject [])) (Inr []) (Inr bare_tx)) ''tx.json'' =
     Inr (JObject []) \<and>
   ''cborHex'' \<notin> set (map fst ([] :: (string \<times> json) list)) \<and>
   (\<exists>msg. parse_from_json (world_with (Inr (JObject [])) (Inr []) (Inr bare_tx))
            loaded_parser ''tx.json'' =
      (Inl (ValueError (''Failed to parse JSON file: '' @ msg)), loaded_parser)) \<and>
   path_exists (world_with (Inr (JObject [(''cborHex'', JString ''84a0'')])) (Inr [132, 160])
       (Inr bare_tx)) ''tx.json'' \<and>
   path_is_file (world_with (Inr (JObject [(''cborHex'', JString ''84a0'')])) (Inr [132, 160])
       (Inr bare_tx)) ''tx.json'' \<and>
   map_of [(''cborHex'', JString ''84a0'')] ''cborHex'' = Some (JString ''84a0'') \<and>
   parse_from_json (world_with (Inr (JObject [(''cborHex'', JString ''84a0'')])) (Inr [132, 160])
       (Inr bare_tx)) loaded_parser ''tx.json'' =
     (Inr \<lparr> cbor_hex = ''84a0'', transaction = bare_tx \<rparr>,
      loaded_parser\<lparr>transaction_data := Some \<lparr> cbor_hex = ''84a0'', transaction = bare_tx \<rparr>\<rparr>)"
proof -
  let ?w1 = "world_with (Inr (JObject [])) (Inr []) (Inr bare_tx)"
  let ?w2 = "world_with (Inr (JObject [(''cborHex'', JString ''84a0'')])) (Inr [132, 160])
       (Inr bare_tx)"
  have a1: "\<not> path_exists ?w1 ''nope.json''"
    by (simp add: world_with_def)
  have a2: "open_json_load ?w1 ''tx.json'' = Inr (JObject [])"
    and a3: "''cborHex'' \<notin> set (map fst ([] :: (string \<times> json) list))"
    by (simp_all add: world_with_def)
  have b1: "path_exists ?w2 ''tx.json''" and b2: "path_is_file ?w2 ''tx.json''"
    and b3: "open_json_load ?w2 ''tx.json'' = Inr (JObject [(''cborHex'', JString ''84a0'')])"
    and b4: "map_of [(''cborHex'', JString ''84a0'')] ''cborHex'' = Some (JString ''84a0'')"
    and b5: "bytes_fromhex ?w2 ''84a0'' = Inr [132, 160]"
    and b6: "Transaction_from_cbor ?w2 [132, 160] = Inr bare_tx"
    by (simp_all add: world_with_def)
  from parse_from_json_all_or_nothing [of ?w1 loaded_parser "''nope.json''"] a1
  have c1: "\<exists>msg. parse_from_json ?w1 loaded_parser ''nope.json'' =
      (Inl (ValueError (''Failed to parse JSON file: '' @ msg)), loaded_parser)"
    by blast
  from parse_from_json_all_or_nothing [of ?w1 loaded_parser "''tx.json''"] a2 a3
  have c2: "\<exists>msg. parse_from_json ?w1 loaded_parser ''tx.json'' =
      (Inl (ValueError (''Failed to parse JSON file: '' @ msg)), loaded_parser)"
    by blast
  from parse_from_json_all_or_nothing [of ?w2 loaded_parser "''tx.json''"] b1 b2 b3 b4 b5 b6
  have c3: "parse_from_json ?w2 loaded_parser ''tx.json'' =
     (Inr \<lparr> cbor_hex = ''84a0'', transaction = bare_tx \<rparr>,
      loaded_parser\<lparr>transaction_data := Some \<lparr> cbor_hex = ''84a0'', transaction = bare_tx \<rparr>\<rparr>)"
    by blast
  from a1 a2 a3 b1 b2 b4 c1 c2 c3 show ?thesis
    by (intro conjI)
qed

end
